theory Spec2Isabelle
  imports Complex_Main
begin

section \<open>Numbers, vectors and matrices\<close>

text \<open>
  The program is a React component (\<^verbatim>\<open>App\<close>) that turns hand-landmark frames into
  voxel placements.  JavaScript numbers are modelled as real numbers: every claim below
  is about the arithmetic and the control flow of the component, not about rounding
  errors of IEEE doubles, and \<^verbatim>\<open>NaN\<close> and the infinities have no counterpart here.

  \<^verbatim>\<open>Math.round\<close> returns the integer nearest to its argument and, when the fractional
  part is exactly one half, the next integer towards plus infinity.
\<close>

definition Math_round :: "real \<Rightarrow> real" where
  "Math_round v = of_int \<lfloor>v + 1 / 2\<rfloor>"

definition GRID_SIZE :: real where
  "GRID_SIZE = 1"

definition PINCH_THRESHOLD :: real where
  "PINCH_THRESHOLD = 45 / 1000"

definition BUILD_DISTANCE :: real where
  "BUILD_DISTANCE = 6"

definition DEG2RAD :: real where
  "DEG2RAD = pi / 180"

text \<open>\<^verbatim>\<open>THREE.Vector3\<close>; \<^verbatim>\<open>new THREE.Vector3()\<close> is the origin.\<close>

datatype vec3 = Vector3 (v_x: real) (v_y: real) (v_z: real)

definition Vector3_new :: vec3 where
  "Vector3_new = Vector3 0 0 0"

text \<open>\<^verbatim>\<open>THREE.Matrix4\<close>: sixteen elements in column-major order.\<close>

datatype mat4 = Matrix4
  (te0: real) (te1: real) (te2: real) (te3: real)
  (te4: real) (te5: real) (te6: real) (te7: real)
  (te8: real) (te9: real) (te10: real) (te11: real)
  (te12: real) (te13: real) (te14: real) (te15: real)

definition identity4 :: mat4 where
  "identity4 = Matrix4 1 0 0 0  0 1 0 0  0 0 1 0  0 0 0 1"

definition vec_sub :: "vec3 \<Rightarrow> vec3 \<Rightarrow> vec3" where
  "vec_sub a b = Vector3 (v_x a - v_x b) (v_y a - v_y b) (v_z a - v_z b)"

definition vec_add :: "vec3 \<Rightarrow> vec3 \<Rightarrow> vec3" where
  "vec_add a b = Vector3 (v_x a + v_x b) (v_y a + v_y b) (v_z a + v_z b)"

definition multiplyScalar :: "vec3 \<Rightarrow> real \<Rightarrow> vec3" where
  "multiplyScalar a k = Vector3 (v_x a * k) (v_y a * k) (v_z a * k)"

definition divideScalar :: "vec3 \<Rightarrow> real \<Rightarrow> vec3" where
  "divideScalar a k = multiplyScalar a (1 / k)"

definition vec_length :: "vec3 \<Rightarrow> real" where
  "vec_length a = sqrt (v_x a * v_x a + v_y a * v_y a + v_z a * v_z a)"

text \<open>\<^verbatim>\<open>normalize\<close> is \<^verbatim>\<open>divideScalar(this.length() || 1)\<close>: the zero vector stays zero.\<close>

definition vec_normalize :: "vec3 \<Rightarrow> vec3" where
  "vec_normalize a = divideScalar a (if vec_length a = 0 then 1 else vec_length a)"

text \<open>\<^verbatim>\<open>equals\<close> compares the three coordinates exactly.\<close>

definition vec_equals :: "vec3 \<Rightarrow> vec3 \<Rightarrow> bool" where
  "vec_equals a b \<longleftrightarrow> v_x b = v_x a \<and> v_y b = v_y a \<and> v_z b = v_z a"

text \<open>\<^verbatim>\<open>applyMatrix4\<close>: the matrix applied to \<open>(x, y, z, 1)\<close>, followed by the
  perspective division.\<close>

definition applyMatrix4 :: "vec3 \<Rightarrow> mat4 \<Rightarrow> vec3" where
  "applyMatrix4 a m =
     (let x = v_x a; y = v_y a; z = v_z a;
          w = 1 / (te3 m * x + te7 m * y + te11 m * z + te15 m)
      in Vector3 ((te0 m * x + te4 m * y + te8 m * z + te12 m) * w)
                 ((te1 m * x + te5 m * y + te9 m * z + te13 m) * w)
                 ((te2 m * x + te6 m * y + te10 m * z + te14 m) * w))"

text \<open>\<^verbatim>\<open>Matrix4.multiply\<close> (used only to check \<open>invert\<close> below).\<close>

definition multiplyMatrices :: "mat4 \<Rightarrow> mat4 \<Rightarrow> mat4" where
  "multiplyMatrices a b = Matrix4
     (te0 a * te0 b + te4 a * te1 b + te8 a * te2 b + te12 a * te3 b)
     (te1 a * te0 b + te5 a * te1 b + te9 a * te2 b + te13 a * te3 b)
     (te2 a * te0 b + te6 a * te1 b + te10 a * te2 b + te14 a * te3 b)
     (te3 a * te0 b + te7 a * te1 b + te11 a * te2 b + te15 a * te3 b)
     (te0 a * te4 b + te4 a * te5 b + te8 a * te6 b + te12 a * te7 b)
     (te1 a * te4 b + te5 a * te5 b + te9 a * te6 b + te13 a * te7 b)
     (te2 a * te4 b + te6 a * te5 b + te10 a * te6 b + te14 a * te7 b)
     (te3 a * te4 b + te7 a * te5 b + te11 a * te6 b + te15 a * te7 b)
     (te0 a * te8 b + te4 a * te9 b + te8 a * te10 b + te12 a * te11 b)
     (te1 a * te8 b + te5 a * te9 b + te9 a * te10 b + te13 a * te11 b)
     (te2 a * te8 b + te6 a * te9 b + te10 a * te10 b + te14 a * te11 b)
     (te3 a * te8 b + te7 a * te9 b + te11 a * te10 b + te15 a * te11 b)
     (te0 a * te12 b + te4 a * te13 b + te8 a * te14 b + te12 a * te15 b)
     (te1 a * te12 b + te5 a * te13 b + te9 a * te14 b + te13 a * te15 b)
     (te2 a * te12 b + te6 a * te13 b + te10 a * te14 b + te14 a * te15 b)
     (te3 a * te12 b + te7 a * te13 b + te11 a * te14 b + te15 a * te15 b)"

text \<open>\<^verbatim>\<open>Matrix4.invert\<close>: the adjugate divided by the determinant; a singular matrix
  is replaced by the zero matrix.\<close>

definition mat4_det :: "mat4 \<Rightarrow> real" where
  "mat4_det m =
     (let n11 = te0 m; n21 = te1 m; n31 = te2 m; n41 = te3 m;
          n12 = te4 m; n22 = te5 m; n32 = te6 m; n42 = te7 m;
          n13 = te8 m; n23 = te9 m; n33 = te10 m; n43 = te11 m;
          n14 = te12 m; n24 = te13 m; n34 = te14 m; n44 = te15 m;
          t11 = n23 * n34 * n42 - n24 * n33 * n42 + n24 * n32 * n43
                - n22 * n34 * n43 - n23 * n32 * n44 + n22 * n33 * n44;
          t12 = n14 * n33 * n42 - n13 * n34 * n42 - n14 * n32 * n43
                + n12 * n34 * n43 + n13 * n32 * n44 - n12 * n33 * n44;
          t13 = n13 * n24 * n42 - n14 * n23 * n42 + n14 * n22 * n43
                - n12 * n24 * n43 - n13 * n22 * n44 + n12 * n23 * n44;
          t14 = n14 * n23 * n32 - n13 * n24 * n32 - n14 * n22 * n33
                + n12 * n24 * n33 + n13 * n22 * n34 - n12 * n23 * n34
      in n11 * t11 + n21 * t12 + n31 * t13 + n41 * t14)"

definition invert :: "mat4 \<Rightarrow> mat4" where
  "invert m =
     (let n11 = te0 m; n21 = te1 m; n31 = te2 m; n41 = te3 m;
          n12 = te4 m; n22 = te5 m; n32 = te6 m; n42 = te7 m;
          n13 = te8 m; n23 = te9 m; n33 = te10 m; n43 = te11 m;
          n14 = te12 m; n24 = te13 m; n34 = te14 m; n44 = te15 m;
          t11 = n23 * n34 * n42 - n24 * n33 * n42 + n24 * n32 * n43
                - n22 * n34 * n43 - n23 * n32 * n44 + n22 * n33 * n44;
          t12 = n14 * n33 * n42 - n13 * n34 * n42 - n14 * n32 * n43
                + n12 * n34 * n43 + n13 * n32 * n44 - n12 * n33 * n44;
          t13 = n13 * n24 * n42 - n14 * n23 * n42 + n14 * n22 * n43
                - n12 * n24 * n43 - n13 * n22 * n44 + n12 * n23 * n44;
          t14 = n14 * n23 * n32 - n13 * n24 * n32 - n14 * n22 * n33
                + n12 * n24 * n33 + n13 * n22 * n34 - n12 * n23 * n34;
          det = n11 * t11 + n21 * t12 + n31 * t13 + n41 * t14
      in if det = 0 then Matrix4 0 0 0 0  0 0 0 0  0 0 0 0  0 0 0 0
         else
           (let detInv = 1 / det in Matrix4
              (t11 * detInv)
              ((n24 * n33 * n41 - n23 * n34 * n41 - n24 * n31 * n43
                + n21 * n34 * n43 + n23 * n31 * n44 - n21 * n33 * n44) * detInv)
              ((n22 * n34 * n41 - n24 * n32 * n41 + n24 * n31 * n42
                - n21 * n34 * n42 - n22 * n31 * n44 + n21 * n32 * n44) * detInv)
              ((n23 * n32 * n41 - n22 * n33 * n41 - n23 * n31 * n42
                + n21 * n33 * n42 + n22 * n31 * n43 - n21 * n32 * n43) * detInv)
              (t12 * detInv)
              ((n13 * n34 * n41 - n14 * n33 * n41 + n14 * n31 * n43
                - n11 * n34 * n43 - n13 * n31 * n44 + n11 * n33 * n44) * detInv)
              ((n14 * n32 * n41 - n12 * n34 * n41 - n14 * n31 * n42
                + n11 * n34 * n42 + n12 * n31 * n44 - n11 * n32 * n44) * detInv)
              ((n12 * n33 * n41 - n13 * n32 * n41 + n13 * n31 * n42
                - n11 * n33 * n42 - n12 * n31 * n43 + n11 * n32 * n43) * detInv)
              (t13 * detInv)
              ((n14 * n23 * n41 - n13 * n24 * n41 - n14 * n21 * n43
                + n11 * n24 * n43 + n13 * n21 * n44 - n11 * n23 * n44) * detInv)
              ((n12 * n24 * n41 - n14 * n22 * n41 + n14 * n21 * n42
                - n11 * n24 * n42 - n12 * n21 * n44 + n11 * n22 * n44) * detInv)
              ((n13 * n22 * n41 - n12 * n23 * n41 - n13 * n21 * n42
                + n11 * n23 * n42 + n12 * n21 * n43 - n11 * n22 * n43) * detInv)
              (t14 * detInv)
              ((n13 * n24 * n31 - n14 * n23 * n31 + n14 * n21 * n33
                - n11 * n24 * n33 - n13 * n21 * n34 + n11 * n23 * n34) * detInv)
              ((n14 * n22 * n31 - n12 * n24 * n31 - n14 * n21 * n32
                + n11 * n24 * n32 + n12 * n21 * n34 - n11 * n22 * n34) * detInv)
              ((n12 * n23 * n31 - n13 * n22 * n31 + n13 * n21 * n32
                - n11 * n23 * n32 - n12 * n21 * n33 + n11 * n22 * n33) * detInv)))"

text \<open>\<^verbatim>\<open>Matrix4.makePerspective\<close> (the WebGL convention of the renderer in use).\<close>

definition makePerspective :: "real \<Rightarrow> real \<Rightarrow> real \<Rightarrow> real \<Rightarrow> real \<Rightarrow> real \<Rightarrow> mat4" where
  "makePerspective lft rgt tp btm nr fr =
     (let x = 2 * nr / (rgt - lft);
          y = 2 * nr / (tp - btm);
          a = (rgt + lft) / (rgt - lft);
          b = (tp + btm) / (tp - btm);
          c = - (fr + nr) / (fr - nr);
          d = - 2 * fr * nr / (fr - nr)
      in Matrix4 x 0 0 0  0 y 0 0  a b c (- 1)  0 0 d 0)"

section \<open>The camera\<close>

text \<open>
  \<^verbatim>\<open>THREE.PerspectiveCamera\<close>, reduced to the fields that \<^verbatim>\<open>unproject\<close> and the
  resize handler read or write.  \<^verbatim>\<open>updateProjectionMatrix\<close> rebuilds the projection
  matrix and its inverse from the field of view (in degrees), the aspect ratio and the
  clipping planes; the zoom factor is the constructor's default 1.
\<close>

record camera =
  fov :: real
  aspect :: real
  near :: real
  far :: real
  cam_position :: vec3
  projectionMatrix :: mat4
  projectionMatrixInverse :: mat4
  matrixWorld :: mat4

definition updateProjectionMatrix :: "camera \<Rightarrow> camera" where
  "updateProjectionMatrix c =
     (let tp = near c * tan (DEG2RAD * (1 / 2) * fov c) / 1;
          height = 2 * tp;
          width = aspect c * height;
          lft = - (1 / 2) * width;
          P = makePerspective lft (lft + width) tp (tp - height) (near c) (far c)
      in c\<lparr>projectionMatrix := P, projectionMatrixInverse := invert P\<rparr>)"

definition PerspectiveCamera :: "real \<Rightarrow> real \<Rightarrow> real \<Rightarrow> real \<Rightarrow> camera" where
  "PerspectiveCamera f a n fr =
     updateProjectionMatrix
       \<lparr>fov = f, aspect = a, near = n, far = fr, cam_position = Vector3 0 0 0,
        projectionMatrix = identity4, projectionMatrixInverse = identity4,
        matrixWorld = identity4\<rparr>"

text \<open>\<^verbatim>\<open>Vector3.unproject\<close>: from normalized device coordinates to world space.\<close>

definition unproject :: "vec3 \<Rightarrow> camera \<Rightarrow> vec3" where
  "unproject a c = applyMatrix4 (applyMatrix4 a (projectionMatrixInverse c)) (matrixWorld c)"

section \<open>Screen point to snapped world position\<close>

text \<open>
  \<^verbatim>\<open>getSnappedWorldPosition\<close>, split at the comment \<^verbatim>\<open>// Snapping logic\<close>:
  \<open>targetPos\<close> is the continuous point \<^verbatim>\<open>BUILD_DISTANCE\<close> along the ray,
  \<open>snap\<close> the rounding of its three coordinates.  The camera argument is
  \<^verbatim>\<open>cameraRef.current\<close>, \<open>None\<close> while it is \<^verbatim>\<open>null\<close>.
\<close>

definition ndcX :: "real \<Rightarrow> real" where
  "ndcX x = (x * 2) - 1"

definition ndcY :: "real \<Rightarrow> real" where
  "ndcY y = - (y * 2) + 1"

definition targetPos :: "camera \<Rightarrow> real \<Rightarrow> real \<Rightarrow> vec3" where
  "targetPos c x y =
     (let vector = unproject (Vector3 (ndcX x) (ndcY y) (1 / 2)) c;
          dir = vec_normalize (vec_sub vector (cam_position c))
      in vec_add (cam_position c) (multiplyScalar dir BUILD_DISTANCE))"

definition snap :: "vec3 \<Rightarrow> vec3" where
  "snap p = Vector3 (Math_round (v_x p / GRID_SIZE) * GRID_SIZE)
                    (Math_round (v_y p / GRID_SIZE) * GRID_SIZE)
                    (Math_round (v_z p / GRID_SIZE) * GRID_SIZE)"

definition getSnappedWorldPosition :: "camera option \<Rightarrow> real \<Rightarrow> real \<Rightarrow> vec3" where
  "getSnappedWorldPosition cameraRef x y =
     (case cameraRef of
        None \<Rightarrow> Vector3_new
      | Some c \<Rightarrow> snap (targetPos c x y))"

section \<open>Hand-tracking results\<close>

text \<open>
  \<^verbatim>\<open>types.ts\<close>: a landmark is a point \<open>(x, y, z)\<close>, a hand is an array of landmarks, and a
  result carries an array of hands.  The callback tests \<^verbatim>\<open>results.multiHandLandmarks\<close>
  for truthiness before reading its length, so the field may be absent: \<open>None\<close>.
\<close>

datatype landmark = Landmark (lm_x: real) (lm_y: real) (lm_z: real)

type_synonym HandLandmarks = "landmark list"

record HandResults =
  multiHandLandmarks :: "HandLandmarks list option"

section \<open>The state of the component\<close>

text \<open>
  A \<^verbatim>\<open>THREE.Group\<close> (the preview cube and every placed voxel) is reduced to its position
  and its visibility flag.  The scene is the list of voxel groups added to it; its
  lights and the preview cube, which no operation below adds or removes, are left out.
\<close>

record group =
  position :: vec3
  visible :: bool

text \<open>
  The effects of the callbacks, in program order: the writes to the preview cube
  (\<^verbatim>\<open>position.copy\<close> with \<^verbatim>\<open>visible = isPinching\<close>, and \<^verbatim>\<open>visible = false\<close> when no hand
  is seen), the call \<^verbatim>\<open>placeBlock(snappedPos)\<close>, the \<^verbatim>\<open>scene.add(voxel)\<close> of a placement,
  and the emptying of the scene by \<^verbatim>\<open>resetScene\<close>.  The list \<open>history\<close> of the state
  records them; it is not a variable of the program and no operation reads it.
\<close>

datatype action =
  PreviewSet vec3 bool
| PreviewHide
| CallPlaceBlock vec3
| SceneAdd vec3
| SceneClear

record app_state =
  sceneRef :: "group list option"
  cameraRef :: "camera option"
  previewCubeRef :: "group option"
  placedCubesRef :: "group list"
  lastPinchStateRef :: bool
  blockCount :: int
  history :: "action list"

definition initial_state :: app_state where
  "initial_state =
     \<lparr>sceneRef = None, cameraRef = None, previewCubeRef = None, placedCubesRef = [],
      lastPinchStateRef = False, blockCount = 0, history = []\<rparr>"

text \<open>
  The first effect (\<^verbatim>\<open>// Initialize Three.js\<close>): a new scene, a camera with a field of
  view of 70 degrees and clipping planes 0.01 and 100 at the origin, and the hidden
  preview cube.  The argument is \<^verbatim>\<open>window.innerWidth / window.innerHeight\<close>.
\<close>

definition initThree :: "real \<Rightarrow> app_state \<Rightarrow> app_state" where
  "initThree a s =
     s\<lparr>sceneRef := Some [],
       cameraRef := Some ((PerspectiveCamera 70 a (1 / 100) 100)\<lparr>cam_position := Vector3 0 0 0\<rparr>),
       previewCubeRef := Some \<lparr>position = Vector3 0 0 0, visible = False\<rparr>\<rparr>"

text \<open>\<^verbatim>\<open>handleResize\<close>, registered by the same effect: a new aspect ratio.\<close>

definition handleResize :: "real \<Rightarrow> app_state \<Rightarrow> app_state" where
  "handleResize a s =
     (case cameraRef s of
        None \<Rightarrow> s
      | Some c \<Rightarrow> s\<lparr>cameraRef := Some (updateProjectionMatrix (c\<lparr>aspect := a\<rparr>))\<rparr>)"

subsection \<open>placeBlock and resetScene\<close>

definition placeBlock :: "vec3 \<Rightarrow> app_state \<Rightarrow> app_state" where
  "placeBlock pos s =
     (case sceneRef s of
        None \<Rightarrow> s
      | Some scene \<Rightarrow>
          if list_ex (\<lambda>c. vec_equals (position c) pos) (placedCubesRef s) then s
          else
            (let voxel = \<lparr>position = pos, visible = True\<rparr>
             in s\<lparr>sceneRef := Some (scene @ [voxel]),
                  placedCubesRef := placedCubesRef s @ [voxel],
                  blockCount := blockCount s + 1,
                  history := history s @ [SceneAdd pos]\<rparr>))"

definition resetScene :: "app_state \<Rightarrow> app_state" where
  "resetScene s =
     (case sceneRef s of
        None \<Rightarrow> s
      | Some scene \<Rightarrow>
          s\<lparr>sceneRef := Some (fold remove1 (placedCubesRef s) scene),
            placedCubesRef := [],
            blockCount := 0,
            history := history s @ [SceneClear]\<rparr>)"

subsection \<open>The callback hands.onResults\<close>

datatype error = TypeError

definition pinchDistance :: "HandLandmarks \<Rightarrow> real" where
  "pinchDistance landmarks =
     (let thumbTip = landmarks ! 4; indexTip = landmarks ! 8
      in sqrt ((lm_x thumbTip - lm_x indexTip) ^ 2
             + (lm_y thumbTip - lm_y indexTip) ^ 2
             + (lm_z thumbTip - lm_z indexTip) ^ 2))"

definition isPinching :: "HandLandmarks \<Rightarrow> bool" where
  "isPinching landmarks \<longleftrightarrow> pinchDistance landmarks < PINCH_THRESHOLD"

definition midpointX :: "HandLandmarks \<Rightarrow> real" where
  "midpointX landmarks = (lm_x (landmarks ! 4) + lm_x (landmarks ! 8)) / 2"

definition midpointY :: "HandLandmarks \<Rightarrow> real" where
  "midpointY landmarks = (lm_y (landmarks ! 4) + lm_y (landmarks ! 8)) / 2"

text \<open>
  The branch taken when a hand is present.  \<^verbatim>\<open>landmarks[4]\<close> or \<^verbatim>\<open>landmarks[8]\<close> is
  \<^verbatim>\<open>undefined\<close> when the array has fewer than nine entries, and reading its \<^verbatim>\<open>x\<close> throws
  a \<^verbatim>\<open>TypeError\<close> before anything has been written.
\<close>

definition onHand :: "HandLandmarks \<Rightarrow> app_state \<Rightarrow> error + app_state" where
  "onHand landmarks s =
     (if length landmarks < 9 then Inl TypeError
      else
        (let snappedPos =
               getSnappedWorldPosition (cameraRef s) (midpointX landmarks) (midpointY landmarks);
             s1 = (case previewCubeRef s of
                     None \<Rightarrow> s
                   | Some p \<Rightarrow>
                       s\<lparr>previewCubeRef :=
                            Some (p\<lparr>position := snappedPos, visible := isPinching landmarks\<rparr>),
                         history := history s @ [PreviewSet snappedPos (isPinching landmarks)]\<rparr>);
             s2 = (if lastPinchStateRef s1 \<and> \<not> isPinching landmarks
                   then placeBlock snappedPos
                          (s1\<lparr>history := history s1 @ [CallPlaceBlock snappedPos]\<rparr>)
                   else s1)
         in Inr (s2\<lparr>lastPinchStateRef := isPinching landmarks\<rparr>)))"

text \<open>The branch taken when no hand is present.\<close>

definition onNoHand :: "app_state \<Rightarrow> app_state" where
  "onNoHand s =
     (let s1 = (case previewCubeRef s of
                  None \<Rightarrow> s
                | Some p \<Rightarrow>
                    s\<lparr>previewCubeRef := Some (p\<lparr>visible := False\<rparr>),
                      history := history s @ [PreviewHide]\<rparr>)
      in s1\<lparr>lastPinchStateRef := False\<rparr>)"

definition onResults :: "HandResults \<Rightarrow> app_state \<Rightarrow> error + app_state" where
  "onResults results s =
     (case multiHandLandmarks results of
        None \<Rightarrow> Inr (onNoHand s)
      | Some [] \<Rightarrow> Inr (onNoHand s)
      | Some (landmarks # others) \<Rightarrow> onHand landmarks s)"

subsection \<open>Runs of the component\<close>

text \<open>
  What can happen to the component: the initialisation effect, a window resize, a
  tracking result, a click on the button \<^verbatim>\<open>Clear Scene\<close>.  A callback that throws leaves
  the state as it was.  \<open>run\<close> starts from the state of the first render.
\<close>

datatype event =
  Mount real
| Resize real
| Results HandResults
| ClearScene

fun step :: "app_state \<Rightarrow> event \<Rightarrow> app_state" where
  "step s (Mount a) = initThree a s"
| "step s (Resize a) = handleResize a s"
| "step s (Results r) = (case onResults r s of Inl e \<Rightarrow> s | Inr s' \<Rightarrow> s')"
| "step s ClearScene = resetScene s"

definition run :: "event list \<Rightarrow> app_state" where
  "run evs = foldl step initial_state evs"

subsection \<open>Reading the history\<close>

text \<open>The positions \<^verbatim>\<open>placeBlock\<close> was called with, in order.\<close>

fun placeCalls :: "action list \<Rightarrow> vec3 list" where
  "placeCalls [] = []"
| "placeCalls (CallPlaceBlock p # h) = p # placeCalls h"
| "placeCalls (a # h) = placeCalls h"

text \<open>The number of voxels added since the scene was last emptied.\<close>

fun placedSinceClear :: "nat \<Rightarrow> action list \<Rightarrow> nat" where
  "placedSinceClear n [] = n"
| "placedSinceClear n (SceneAdd p # h) = placedSinceClear (Suc n) h"
| "placedSinceClear n (SceneClear # h) = placedSinceClear 0 h"
| "placedSinceClear n (a # h) = placedSinceClear n h"

text \<open>\<open>precedes a b h\<close>: the action \<open>a\<close> occurs in \<open>h\<close>, and no \<open>b\<close> occurs before its
  first occurrence.\<close>

fun precedes :: "action \<Rightarrow> action \<Rightarrow> action list \<Rightarrow> bool" where
  "precedes a b [] = False"
| "precedes a b (c # h) = (if c = a then True else if c = b then False else precedes a b h)"

section \<open>Reference notions and sample frames\<close>

text \<open>
  The Euclidean distance of two landmarks in \<open>(x, y, z)\<close> space, and the two tie-breaking
  rules for rounding to the nearest integer that the design names: a tie goes away from
  zero, or to the even neighbour.  They are what the program is compared with; the
  program does not use them.
\<close>

definition euclidean_distance :: "landmark \<Rightarrow> landmark \<Rightarrow> real" where
  "euclidean_distance p q =
     sqrt ((lm_x p - lm_x q)\<^sup>2 + (lm_y p - lm_y q)\<^sup>2 + (lm_z p - lm_z q)\<^sup>2)"

definition round_half_away_from_zero :: "real \<Rightarrow> real" where
  "round_half_away_from_zero v =
     (if 0 \<le> v then of_int \<lfloor>v + 1 / 2\<rfloor> else - of_int \<lfloor>- v + 1 / 2\<rfloor>)"

definition round_half_to_even :: "real \<Rightarrow> real" where
  "round_half_to_even v =
     (if frac v < 1 / 2 then of_int \<lfloor>v\<rfloor>
      else if 1 / 2 < frac v then of_int \<lfloor>v\<rfloor> + 1
      else if even \<lfloor>v\<rfloor> then of_int \<lfloor>v\<rfloor>
      else of_int \<lfloor>v\<rfloor> + 1)"

text \<open>
  Three hands of 21 landmarks whose thumb tip and index tip project to the centre of the
  screen: the tips touch (distance 0), they are 0.05 apart in depth, and they are exactly
  \<^verbatim>\<open>PINCH_THRESHOLD\<close> apart in depth.
\<close>

definition pinch_hand :: HandLandmarks where
  "pinch_hand = replicate 21 (Landmark (1 / 2) (1 / 2) 0)"

definition open_hand :: HandLandmarks where
  "open_hand = (replicate 21 (Landmark (1 / 2) (1 / 2) 0))[8 := Landmark (1 / 2) (1 / 2) (1 / 20)]"

definition boundary_hand :: HandLandmarks where
  "boundary_hand =
     (replicate 21 (Landmark (1 / 2) (1 / 2) 0))[8 := Landmark (1 / 2) (1 / 2) (45 / 1000)]"

definition pinch_results :: HandResults where
  "pinch_results = \<lparr>multiHandLandmarks = Some [pinch_hand]\<rparr>"

definition open_results :: HandResults where
  "open_results = \<lparr>multiHandLandmarks = Some [open_hand]\<rparr>"

section \<open>Facts about the projection\<close>

text \<open>\<open>invert\<close> is a right inverse wherever the determinant does not vanish.\<close>

lemma entry_scale:
  "(a::real) * (p * k) + b * (q * k) + c * (r * k) + d * (s * k)
     = (a * p + b * q + c * r + d * s) * k"
  by (simp add: algebra_simps)

lemma zero_times: "(p::real) = 0 \<Longrightarrow> p * k = 0"
  by simp

lemma invert_right:
  assumes "mat4_det m \<noteq> 0"
  shows "multiplyMatrices m (invert m) = identity4"
proof (cases m)
  case (Matrix4 a0 a1 a2 a3 a4 a5 a6 a7 a8 a9 a10 a11 a12 a13 a14 a15)
  define D where "D = mat4_det m"
  have D: "D \<noteq> 0" using assms D_def by simp
  have Dm: "mat4_det (Matrix4 a0 a1 a2 a3 a4 a5 a6 a7 a8 a9 a10 a11 a12 a13 a14 a15) = D"
    using Matrix4 D_def by simp
  note Dx = Dm[unfolded mat4_det_def Let_def mat4.sel]
  have k: "D * (1 / D) = 1" using D by simp
  have diag: "p = D \<Longrightarrow> p * (1 / D) = 1" for p using k by simp
  show ?thesis
    unfolding Matrix4 multiplyMatrices_def invert_def identity4_def
    apply (simp only: Let_def mat4.sel Dx D if_False entry_scale mat4.inject)
    apply (intro conjI)
    subgoal by (rule diag, simp only: Dx[symmetric], simp only: algebra_simps)
    subgoal by (rule zero_times, simp add: algebra_simps)
    subgoal by (rule zero_times, simp add: algebra_simps)
    subgoal by (rule zero_times, simp add: algebra_simps)
    subgoal by (rule zero_times, simp add: algebra_simps)
    subgoal by (rule diag, simp only: Dx[symmetric], simp only: algebra_simps)
    subgoal by (rule zero_times, simp add: algebra_simps)
    subgoal by (rule zero_times, simp add: algebra_simps)
    subgoal by (rule zero_times, simp add: algebra_simps)
    subgoal by (rule zero_times, simp add: algebra_simps)
    subgoal by (rule diag, simp only: Dx[symmetric], simp only: algebra_simps)
    subgoal by (rule zero_times, simp add: algebra_simps)
    subgoal by (rule zero_times, simp add: algebra_simps)
    subgoal by (rule zero_times, simp add: algebra_simps)
    subgoal by (rule zero_times, simp add: algebra_simps)
    subgoal by (rule diag, simp only: Dx[symmetric], simp only: algebra_simps)
    done
qed

text \<open>The camera of the component: half the field of view is 35 degrees.\<close>

lemma tan_half_fov_pos: "0 < tan (DEG2RAD * (1 / 2) * 70)"
proof -
  have "0 < DEG2RAD * (1 / 2) * 70" by (simp add: DEG2RAD_def)
  moreover have "DEG2RAD * (1 / 2) * 70 < pi / 2" using pi_gt_zero by (simp add: DEG2RAD_def)
  ultimately show ?thesis by (rule tan_gt_zero)
qed

lemma initial_projectionMatrixInverse:
  assumes "0 < a"
  shows "projectionMatrixInverse (PerspectiveCamera 70 a (1 / 100) 100) =
     Matrix4 (a * tan (DEG2RAD * (1 / 2) * 70)) 0 0 0
             0 (tan (DEG2RAD * (1 / 2) * 70)) 0 0
             0 0 0 (- 9999 / 200)
             0 0 (- 1) (10001 / 200)"
proof -
  define t where "t = tan (DEG2RAD * 35)"
  have h: "DEG2RAD * (1 / 2) * 70 = DEG2RAD * 35" by simp
  have t: "0 < t" unfolding t_def using tan_half_fov_pos unfolding h .
  have e: "tan (DEG2RAD * (1 / 2) * 70) = t" unfolding t_def h by (rule refl)
  show ?thesis
    unfolding PerspectiveCamera_def updateProjectionMatrix_def makePerspective_def invert_def
    using t assms by (simp add: Let_def field_simps t_def[symmetric])
qed


lemma unproject_initial:
  assumes "0 < a"
  shows "unproject (Vector3 nx ny (1 / 2)) (PerspectiveCamera 70 a (1 / 100) 100) =
     Vector3 (nx * (a * tan (DEG2RAD * (1 / 2) * 70)) * (400 / 10003))
             (ny * tan (DEG2RAD * (1 / 2) * 70) * (400 / 10003))
             (- (400 / 10003))"
proof -
  have w: "matrixWorld (PerspectiveCamera 70 a (1 / 100) 100) = identity4"
    by (simp add: PerspectiveCamera_def updateProjectionMatrix_def Let_def)
  show ?thesis
    unfolding unproject_def w initial_projectionMatrixInverse[OF assms]
    by (simp add: applyMatrix4_def identity4_def Let_def)
qed

lemma cam_position_initial: "cam_position (PerspectiveCamera 70 a (1 / 100) 100) = Vector3 0 0 0"
  by (simp add: PerspectiveCamera_def updateProjectionMatrix_def Let_def)

lemma vec_length_multiplyScalar: "vec_length (multiplyScalar v k) = \<bar>k\<bar> * vec_length v"
proof -
  have "v_x v * k * (v_x v * k) + v_y v * k * (v_y v * k) + v_z v * k * (v_z v * k)
        = (k * k) * (v_x v * v_x v + v_y v * v_y v + v_z v * v_z v)"
    by (simp add: algebra_simps)
  then show ?thesis
    by (simp add: vec_length_def multiplyScalar_def real_sqrt_mult)
qed

lemma vec_length_normalize: "vec_length v \<noteq> 0 \<Longrightarrow> vec_length (vec_normalize v) = 1"
proof -
  assume n: "vec_length v \<noteq> 0"
  have "0 \<le> vec_length v" by (simp add: vec_length_def)
  with n have "0 < vec_length v" by simp
  then show ?thesis
    by (simp add: vec_normalize_def divideScalar_def vec_length_multiplyScalar)
qed

lemma vec_length_axis_z: "vec_length (Vector3 0 0 c) = \<bar>c\<bar>"
  by (simp add: vec_length_def)

lemma targetPos_origin_center:
  assumes "0 < a"
  shows "targetPos (PerspectiveCamera 70 a (1 / 100) 100) (1 / 2) (1 / 2) = Vector3 0 0 (- 6)"
  unfolding targetPos_def Let_def unproject_initial[OF assms] cam_position_initial
  by (simp add: ndcX_def ndcY_def vec_sub_def vec_add_def vec_normalize_def divideScalar_def multiplyScalar_def
      vec_length_axis_z BUILD_DISTANCE_def)

lemma snap_lattice: "snap (Vector3 0 0 (- 6)) = Vector3 0 0 (- 6)"
  by (simp add: snap_def Math_round_def GRID_SIZE_def)


lemma vec_length_nonzero: "v_z v \<noteq> 0 \<Longrightarrow> vec_length v \<noteq> 0"
proof -
  assume z: "v_z v \<noteq> 0"
  have "0 < v_z v * v_z v" using z by (auto simp: zero_less_mult_iff)
  moreover have "0 \<le> v_x v * v_x v" "0 \<le> v_y v * v_y v" by simp_all
  ultimately have "0 < v_x v * v_x v + v_y v * v_y v + v_z v * v_z v" by linarith
  then show ?thesis by (simp add: vec_length_def)
qed

lemma vec_sub_origin: "vec_sub v (Vector3 0 0 0) = v"
  by (cases v) (simp add: vec_sub_def)

lemma vec_add_origin: "vec_add (Vector3 0 0 0) v = v"
  by (cases v) (simp add: vec_add_def)

lemma targetPos_distance:
  assumes "0 < a"
  shows "vec_length (vec_sub (targetPos (PerspectiveCamera 70 a (1 / 100) 100) x y)
            (cam_position (PerspectiveCamera 70 a (1 / 100) 100))) = BUILD_DISTANCE"
proof -
  let ?c = "PerspectiveCamera 70 a (1 / 100) 100"
  let ?v = "unproject (Vector3 (ndcX x) (ndcY y) (1 / 2)) ?c"
  have "v_z ?v \<noteq> 0" by (simp add: unproject_initial[OF assms])
  then have "vec_length ?v \<noteq> 0" by (rule vec_length_nonzero)
  then have "vec_length (vec_normalize ?v) = 1" by (rule vec_length_normalize)
  then show ?thesis
    by (simp add: targetPos_def Let_def cam_position_initial vec_sub_origin vec_add_origin
        vec_length_multiplyScalar BUILD_DISTANCE_def)
qed

lemma getSnapped_center:
  assumes "0 < a"
  shows "getSnappedWorldPosition (Some (PerspectiveCamera 70 a (1 / 100) 100)) (1 / 2) (1 / 2)
         = Vector3 0 0 (- 6)"
  by (simp add: getSnappedWorldPosition_def targetPos_origin_center[OF assms] snap_lattice)

text \<open>
  A screen point whose continuous world point lies exactly on a half-cell boundary: with a
  window of 16 by 9, the point at height \<open>1/2\<close> whose ray has the direction
  \<open>(-1/4, 0, -sqrt(15)/4)\<close>.
\<close>

lemma sqrt15_bounds: "11 / 3 < sqrt 15" "sqrt 15 \<le> 13 / 3"
proof -
  show "11 / 3 < sqrt 15" by (rule real_less_rsqrt) (simp add: power2_eq_square)
  show "sqrt 15 \<le> 13 / 3" by (rule real_le_lsqrt) (simp_all add: power2_eq_square)
qed

lemma vec_normalize_tie_direction:
  assumes "0 < k"
  shows "vec_normalize (Vector3 (- (k / sqrt 15)) 0 (- k)) = Vector3 (- (1 / 4)) 0 (- (sqrt 15 / 4))"
proof -
  have s: "0 < sqrt 15" by simp
  have q: "sqrt 15 * sqrt 15 = 15" by simp
  have "v_x (Vector3 (- (k / sqrt 15)) 0 (- k)) * v_x (Vector3 (- (k / sqrt 15)) 0 (- k))
        + v_y (Vector3 (- (k / sqrt 15)) 0 (- k)) * v_y (Vector3 (- (k / sqrt 15)) 0 (- k))
        + v_z (Vector3 (- (k / sqrt 15)) 0 (- k)) * v_z (Vector3 (- (k / sqrt 15)) 0 (- k))
        = (4 * k / sqrt 15) * (4 * k / sqrt 15)"
    using s q by (simp add: field_simps)
  then have "vec_length (Vector3 (- (k / sqrt 15)) 0 (- k)) = \<bar>4 * k / sqrt 15\<bar>"
    unfolding vec_length_def by (simp only: real_sqrt_abs2)
  then have l: "vec_length (Vector3 (- (k / sqrt 15)) 0 (- k)) = 4 * k / sqrt 15"
    using assms s by simp
  have nz: "4 * k / sqrt 15 \<noteq> 0" using assms s by simp
  have z: "k * sqrt 15 / (4 * k) = sqrt 15 / 4" using assms by simp
  show ?thesis
    unfolding vec_normalize_def l using nz assms s
    by (simp add: divideScalar_def multiplyScalar_def z)
qed

lemma targetPos_tie:
  "targetPos (PerspectiveCamera 70 (16 / 9) (1 / 100) 100)
     (1 / 2 - 9 / (32 * tan (DEG2RAD * (1 / 2) * 70) * sqrt 15)) (1 / 2)
   = Vector3 (- (3 / 2)) 0 (- (3 * sqrt 15 / 2))"
proof -
  define t where "t = tan (DEG2RAD * (1 / 2) * 70)"
  have t: "0 < t" unfolding t_def by (rule tan_half_fov_pos)
  have a: "(0::real) < 16 / 9" by simp
  have n: "ndcX (1 / 2 - 9 / (32 * t * sqrt 15)) * (16 / 9 * t) = - (1 / sqrt 15)"
    using t by (simp add: ndcX_def field_simps)
  have u: "unproject (Vector3 (ndcX (1 / 2 - 9 / (32 * t * sqrt 15))) (ndcY (1 / 2)) (1 / 2))
             (PerspectiveCamera 70 (16 / 9) (1 / 100) 100)
           = Vector3 (- ((400 / 10003) / sqrt 15)) 0 (- (400 / 10003))"
    unfolding unproject_initial[OF a] t_def[symmetric] n
    by (simp add: ndcY_def)
  have k: "(0::real) < 400 / 10003" by simp
  show ?thesis
    unfolding targetPos_def Let_def t_def[symmetric] u cam_position_initial vec_sub_origin
      vec_normalize_tie_direction[OF k]
    by (simp add: vec_add_def multiplyScalar_def BUILD_DISTANCE_def)
qed

lemma getSnapped_tie:
  "getSnappedWorldPosition (Some (PerspectiveCamera 70 (16 / 9) (1 / 100) 100))
     (1 / 2 - 9 / (32 * tan (DEG2RAD * (1 / 2) * 70) * sqrt 15)) (1 / 2)
   = Vector3 (- 1) 0 (- 6)"
proof -
  have "\<lfloor>- (3 * sqrt 15 / 2) + 1 / 2\<rfloor> = - 6"
    by (rule floor_unique) (use sqrt15_bounds in simp_all)
  then show ?thesis
    unfolding getSnappedWorldPosition_def option.case targetPos_tie
    by (simp add: snap_def GRID_SIZE_def Math_round_def)
qed

section \<open>Facts about the callbacks\<close>

lemma sqrt_less_threshold: "0 \<le> a \<Longrightarrow> 0 < c \<Longrightarrow> sqrt a < c \<longleftrightarrow> a < c\<^sup>2"
  by (metis real_sqrt_less_iff real_sqrt_abs abs_of_pos)

lemma isPinching_squares:
  "isPinching lm \<longleftrightarrow>
     (lm_x (lm ! 4) - lm_x (lm ! 8))\<^sup>2 + (lm_y (lm ! 4) - lm_y (lm ! 8))\<^sup>2
       + (lm_z (lm ! 4) - lm_z (lm ! 8))\<^sup>2 < (45 / 1000)\<^sup>2"
  unfolding isPinching_def pinchDistance_def PINCH_THRESHOLD_def Let_def
  by (rule sqrt_less_threshold) simp_all

lemma pinch_hand_facts:
  "length pinch_hand = 21" "isPinching pinch_hand"
  "midpointX pinch_hand = 1 / 2" "midpointY pinch_hand = 1 / 2"
  by (simp_all add: pinch_hand_def isPinching_squares midpointX_def midpointY_def)

lemma open_hand_facts:
  "length open_hand = 21" "\<not> isPinching open_hand"
  "midpointX open_hand = 1 / 2" "midpointY open_hand = 1 / 2"
  by (simp_all add: open_hand_def isPinching_squares midpointX_def midpointY_def power2_eq_square)

lemma placeBlock_no_scene: "sceneRef s = None \<Longrightarrow> placeBlock pos s = s"
  by (simp add: placeBlock_def)

lemma placeBlock_occupied:
  "list_ex (\<lambda>c. vec_equals (position c) pos) (placedCubesRef s) \<Longrightarrow> placeBlock pos s = s"
  by (simp add: placeBlock_def split: option.splits)

lemma vec_equals_iff: "vec_equals a b \<longleftrightarrow> a = b"
  by (cases a; cases b) (auto simp: vec_equals_def)

lemma occupied_iff: "list_ex (\<lambda>c. vec_equals (position c) pos) cubes \<longleftrightarrow> pos \<in> position ` set cubes"
  by (auto simp: list_ex_iff vec_equals_iff)

lemma placeBlock_free:
  assumes "sceneRef s = Some scene"
    and "\<not> list_ex (\<lambda>c. vec_equals (position c) pos) (placedCubesRef s)"
  shows "placeBlock pos s =
     s\<lparr>sceneRef := Some (scene @ [\<lparr>position = pos, visible = True\<rparr>]),
       placedCubesRef := placedCubesRef s @ [\<lparr>position = pos, visible = True\<rparr>],
       blockCount := blockCount s + 1,
       history := history s @ [SceneAdd pos]\<rparr>"
  using assms by (simp add: placeBlock_def Let_def)

lemma vec_equals_refl: "vec_equals p p"
  by (simp add: vec_equals_def)

lemma placeBlock_twice: "placeBlock pos (placeBlock pos s) = placeBlock pos s"
proof (cases "sceneRef s")
  case None
  then show ?thesis by (simp add: placeBlock_no_scene)
next
  case (Some scene)
  show ?thesis
  proof (cases "list_ex (\<lambda>c. vec_equals (position c) pos) (placedCubesRef s)")
    case True
    then show ?thesis by (simp add: placeBlock_occupied)
  next
    case False
    have "list_ex (\<lambda>c. vec_equals (position c) pos) (placedCubesRef (placeBlock pos s))"
      by (simp add: placeBlock_free[OF Some False] vec_equals_refl)
    then show ?thesis by (rule placeBlock_occupied)
  qed
qed

text \<open>What a frame with a hand does, field by field.\<close>

lemma onHand_short: "length lm < 9 \<Longrightarrow> onHand lm s = Inl TypeError"
  by (simp add: onHand_def)

lemma onHand_total: "9 \<le> length lm \<Longrightarrow> \<exists>s'. onHand lm s = Inr s'"
  by (simp add: onHand_def Let_def)

lemma onHand_lastPinch: "onHand lm s = Inr s' \<Longrightarrow> lastPinchStateRef s' = isPinching lm"
  by (auto simp: onHand_def Let_def split: if_splits)

lemma onHand_preview:
  "onHand lm s = Inr s' \<Longrightarrow>
     previewCubeRef s' =
       map_option (\<lambda>p. p\<lparr>position := getSnappedWorldPosition (cameraRef s) (midpointX lm) (midpointY lm),
                          visible := isPinching lm\<rparr>) (previewCubeRef s)"
  by (auto simp: onHand_def Let_def placeBlock_def split: if_splits option.splits)

lemma onHand_store:
  assumes "onHand lm s = Inr s'"
  shows "placedCubesRef s' =
           (if lastPinchStateRef s \<and> \<not> isPinching lm
            then placedCubesRef (placeBlock (getSnappedWorldPosition (cameraRef s) (midpointX lm) (midpointY lm)) s)
            else placedCubesRef s)"
    and "blockCount s' =
           (if lastPinchStateRef s \<and> \<not> isPinching lm
            then blockCount (placeBlock (getSnappedWorldPosition (cameraRef s) (midpointX lm) (midpointY lm)) s)
            else blockCount s)"
    and "sceneRef s' =
           (if lastPinchStateRef s \<and> \<not> isPinching lm
            then sceneRef (placeBlock (getSnappedWorldPosition (cameraRef s) (midpointX lm) (midpointY lm)) s)
            else sceneRef s)"
  using assms
  by (auto simp: onHand_def Let_def placeBlock_def split: if_splits option.splits)

lemma onHand_history:
  assumes "onHand lm s = Inr s'"
  shows "history s' = history s
      @ (case previewCubeRef s of None \<Rightarrow> []
         | Some p \<Rightarrow> [PreviewSet (getSnappedWorldPosition (cameraRef s) (midpointX lm) (midpointY lm)) (isPinching lm)])
      @ (if lastPinchStateRef s \<and> \<not> isPinching lm
         then CallPlaceBlock (getSnappedWorldPosition (cameraRef s) (midpointX lm) (midpointY lm))
              # (if sceneRef s \<noteq> None
                    \<and> \<not> list_ex (\<lambda>c. vec_equals (position c)
                            (getSnappedWorldPosition (cameraRef s) (midpointX lm) (midpointY lm))) (placedCubesRef s)
                 then [SceneAdd (getSnappedWorldPosition (cameraRef s) (midpointX lm) (midpointY lm))] else [])
         else [])"
  using assms
  by (auto simp: onHand_def Let_def placeBlock_def split: if_splits option.splits)

lemma onNoHand_fields:
  "lastPinchStateRef (onNoHand s) = False"
  "placedCubesRef (onNoHand s) = placedCubesRef s"
  "blockCount (onNoHand s) = blockCount s"
  "sceneRef (onNoHand s) = sceneRef s"
  "cameraRef (onNoHand s) = cameraRef s"
  "previewCubeRef (onNoHand s) = map_option (\<lambda>p. p\<lparr>visible := False\<rparr>) (previewCubeRef s)"
  "history (onNoHand s) = history s @ (case previewCubeRef s of None \<Rightarrow> [] | Some p \<Rightarrow> [PreviewHide])"
  by (auto simp: onNoHand_def Let_def split: option.splits)

lemma onResults_no_hand:
  "multiHandLandmarks r = None \<or> multiHandLandmarks r = Some [] \<Longrightarrow> onResults r s = Inr (onNoHand s)"
  by (auto simp: onResults_def)

lemma placeCalls_append: "placeCalls (h @ h') = placeCalls h @ placeCalls h'"
  by (induction h rule: placeCalls.induct) simp_all

lemma placedSinceClear_append:
  "placedSinceClear n (h @ h') = placedSinceClear (placedSinceClear n h) h'"
  by (induction n h rule: placedSinceClear.induct) simp_all

lemma camera_at_origin:
  "(PerspectiveCamera f a n fr)\<lparr>cam_position := Vector3 0 0 0\<rparr> = PerspectiveCamera f a n fr"
  by (simp add: PerspectiveCamera_def updateProjectionMatrix_def Let_def)

lemma run_snoc: "run (evs @ [e]) = step (run evs) e"
  by (simp add: run_def)

lemma run_Nil: "run [] = initial_state"
  by (simp add: run_def)

lemma getSnapped_wide:
  "getSnappedWorldPosition (Some (PerspectiveCamera 70 (16 / 9) (1 / 100) 100)) (1 / 2) (1 / 2)
     = Vector3 0 0 (- 6)"
  by (rule getSnapped_center) simp

lemma onHand_pinch_hand:
  "onHand pinch_hand s =
     Inr ((case previewCubeRef s of
             None \<Rightarrow> s
           | Some p \<Rightarrow>
               s\<lparr>previewCubeRef :=
                    Some (p\<lparr>position := getSnappedWorldPosition (cameraRef s) (1 / 2) (1 / 2), visible := True\<rparr>),
                 history := history s @ [PreviewSet (getSnappedWorldPosition (cameraRef s) (1 / 2) (1 / 2)) True]\<rparr>)
          \<lparr>lastPinchStateRef := True\<rparr>)"
  by (simp add: onHand_def pinch_hand_facts Let_def split: option.splits)

lemma run_pinch_unmounted:
  "run [Results pinch_results] = initial_state\<lparr>lastPinchStateRef := True\<rparr>"
  by (simp add: run_def pinch_results_def onResults_def onHand_pinch_hand initial_state_def)

lemma run_mount_pinch:
  "run [Mount (16 / 9), Results pinch_results] =
     \<lparr>sceneRef = Some [], cameraRef = Some (PerspectiveCamera 70 (16 / 9) (1 / 100) 100),
      previewCubeRef = Some \<lparr>position = Vector3 0 0 (- 6), visible = True\<rparr>,
      placedCubesRef = [], lastPinchStateRef = True, blockCount = 0,
      history = [PreviewSet (Vector3 0 0 (- 6)) True]\<rparr>"
  by (simp add: run_def pinch_results_def onResults_def onHand_pinch_hand initial_state_def
      initThree_def camera_at_origin getSnapped_wide)

lemma run_mount_pinch_open:
  "run [Mount (16 / 9), Results pinch_results, Results open_results] =
     \<lparr>sceneRef = Some [\<lparr>position = Vector3 0 0 (- 6), visible = True\<rparr>],
      cameraRef = Some (PerspectiveCamera 70 (16 / 9) (1 / 100) 100),
      previewCubeRef = Some \<lparr>position = Vector3 0 0 (- 6), visible = False\<rparr>,
      placedCubesRef = [\<lparr>position = Vector3 0 0 (- 6), visible = True\<rparr>],
      lastPinchStateRef = False, blockCount = 1,
      history = [PreviewSet (Vector3 0 0 (- 6)) True, PreviewSet (Vector3 0 0 (- 6)) False,
                 CallPlaceBlock (Vector3 0 0 (- 6)), SceneAdd (Vector3 0 0 (- 6))]\<rparr>"
proof -
  have "run [Mount (16 / 9), Results pinch_results, Results open_results]
        = step (run [Mount (16 / 9), Results pinch_results]) (Results open_results)"
    using run_snoc[of "[Mount (16 / 9), Results pinch_results]" "Results open_results"] by simp
  then show ?thesis
    unfolding run_mount_pinch
    by (simp add: open_results_def onResults_def onHand_def open_hand_facts Let_def
        getSnapped_wide placeBlock_def)
qed

lemma boundary_hand_facts:
  "length boundary_hand = 21" "\<not> isPinching boundary_hand"
  "euclidean_distance (boundary_hand ! 4) (boundary_hand ! 8) = 45 / 1000"
  by (simp_all add: boundary_hand_def isPinching_squares euclidean_distance_def)

lemma pinchDistance_euclidean: "pinchDistance lm = euclidean_distance (lm ! 4) (lm ! 8)"
  by (simp add: pinchDistance_def euclidean_distance_def Let_def)

lemma placeBlock_fields:
  "blockCount (placeBlock pos s) =
     (if sceneRef s \<noteq> None \<and> \<not> list_ex (\<lambda>c. vec_equals (position c) pos) (placedCubesRef s)
      then blockCount s + 1 else blockCount s)"
  "placedCubesRef (placeBlock pos s) =
     (if sceneRef s \<noteq> None \<and> \<not> list_ex (\<lambda>c. vec_equals (position c) pos) (placedCubesRef s)
      then placedCubesRef s @ [\<lparr>position = pos, visible = True\<rparr>] else placedCubesRef s)"
  "sceneRef (placeBlock pos s) = None \<longleftrightarrow> sceneRef s = None"
  by (auto simp: placeBlock_def Let_def split: option.splits)

lemma resetScene_fields:
  "blockCount (resetScene s) = (if sceneRef s = None then blockCount s else 0)"
  "placedCubesRef (resetScene s) = (if sceneRef s = None then placedCubesRef s else [])"
  "sceneRef (resetScene s) = None \<longleftrightarrow> sceneRef s = None"
  "history (resetScene s) = history s @ (if sceneRef s = None then [] else [SceneClear])"
  by (auto simp: resetScene_def split: option.splits)

lemma initThree_fields:
  "blockCount (initThree a s) = blockCount s"
  "placedCubesRef (initThree a s) = placedCubesRef s"
  "sceneRef (initThree a s) \<noteq> None"
  "history (initThree a s) = history s"
  by (simp_all add: initThree_def)

lemma handleResize_fields:
  "blockCount (handleResize a s) = blockCount s"
  "placedCubesRef (handleResize a s) = placedCubesRef s"
  "sceneRef (handleResize a s) = sceneRef s"
  "history (handleResize a s) = history s"
  by (simp_all add: handleResize_def split: option.splits)

text \<open>The store after one event: unchanged, one voxel longer, or empty.\<close>

lemma step_Results_store:
  "placedCubesRef (step s (Results r)) = placedCubesRef s
   \<or> (\<exists>p. \<not> list_ex (\<lambda>c. vec_equals (position c) p) (placedCubesRef s)
         \<and> placedCubesRef (step s (Results r)) = placedCubesRef s @ [\<lparr>position = p, visible = True\<rparr>])"
proof (cases "onResults r s")
  case (Inl e)
  then show ?thesis by simp
next
  case (Inr s')
  show ?thesis
  proof (cases "multiHandLandmarks r")
    case None
    then show ?thesis using Inr by (auto simp: onResults_def onNoHand_fields)
  next
    case (Some hands)
    show ?thesis
    proof (cases hands)
      case Nil
      then show ?thesis using Inr Some by (auto simp: onResults_def onNoHand_fields)
    next
      case (Cons lm others)
      then have h: "onHand lm s = Inr s'" using Inr Some by (simp add: onResults_def)
      show ?thesis using Inr by (auto simp: onHand_store(1)[OF h] placeBlock_fields)
    qed
  qed
qed

lemma step_store:
  "placedCubesRef (step s e) = placedCubesRef s
   \<or> (\<exists>r p. e = Results r \<and> \<not> list_ex (\<lambda>c. vec_equals (position c) p) (placedCubesRef s)
         \<and> placedCubesRef (step s e) = placedCubesRef s @ [\<lparr>position = p, visible = True\<rparr>])
   \<or> (e = ClearScene \<and> placedCubesRef (step s e) = [])"
proof (cases e)
  case (Results r)
  then show ?thesis using step_Results_store[of s r] by auto
qed (auto simp: initThree_fields handleResize_fields resetScene_fields)

text \<open>The block count and the history after one event.\<close>

lemma step_count_history:
  assumes "blockCount s = int (placedSinceClear 0 (history s))"
  shows "blockCount (step s e) = int (placedSinceClear 0 (history (step s e)))"
proof (cases e)
  case (Mount a)
  then show ?thesis using assms by (simp add: initThree_fields)
next
  case (Resize a)
  then show ?thesis using assms by (simp add: handleResize_fields)
next
  case ClearScene
  then show ?thesis using assms by (simp add: resetScene_fields placedSinceClear_append)
next
  case (Results r)
  show ?thesis
  proof (cases "onResults r s")
    case (Inl err)
    then show ?thesis using Results assms by simp
  next
    case (Inr s')
    show ?thesis
    proof (cases "multiHandLandmarks r")
      case None
      then show ?thesis using Inr Results assms
        by (auto simp: onResults_def onNoHand_fields placedSinceClear_append split: option.splits)
    next
      case (Some hands)
      show ?thesis
      proof (cases hands)
        case Nil
        then show ?thesis using Inr Results Some assms
          by (auto simp: onResults_def onNoHand_fields placedSinceClear_append split: option.splits)
      next
        case (Cons lm others)
        then have h: "onHand lm s = Inr s'" using Inr Some by (simp add: onResults_def)
        show ?thesis using Inr Results assms
          by (simp add: onHand_store(2)[OF h] onHand_history[OF h] placeBlock_fields
              placedSinceClear_append split: option.splits)
      qed
    qed
  qed
qed

lemma step_count_length:
  assumes "blockCount s = int (length (placedCubesRef s))"
    and "sceneRef s = None \<longrightarrow> placedCubesRef s = []"
  shows "blockCount (step s e) = int (length (placedCubesRef (step s e)))"
proof (cases e)
  case (Mount a)
  then show ?thesis using assms by (simp add: initThree_fields)
next
  case (Resize a)
  then show ?thesis using assms by (simp add: handleResize_fields)
next
  case ClearScene
  then show ?thesis using assms by (simp add: resetScene_fields)
next
  case (Results r)
  show ?thesis
  proof (cases "onResults r s")
    case (Inl err)
    then show ?thesis using Results assms by simp
  next
    case (Inr s')
    show ?thesis
    proof (cases "multiHandLandmarks r")
      case None
      then show ?thesis using Inr Results assms by (auto simp: onResults_def onNoHand_fields)
    next
      case (Some hands)
      show ?thesis
      proof (cases hands)
        case Nil
        then show ?thesis using Inr Results Some assms by (auto simp: onResults_def onNoHand_fields)
      next
        case (Cons lm others)
        then have h: "onHand lm s = Inr s'" using Inr Some by (simp add: onResults_def)
        show ?thesis using Inr Results assms
          by (simp add: onHand_store(1,2)[OF h] placeBlock_fields)
      qed
    qed
  qed
qed

lemma step_scene_none:
  assumes "sceneRef s = None \<longrightarrow> placedCubesRef s = []"
  shows "sceneRef (step s e) = None \<longrightarrow> placedCubesRef (step s e) = []"
proof (cases e)
  case (Results r)
  show ?thesis
  proof (cases "onResults r s")
    case (Inl err)
    then show ?thesis using Results assms by simp
  next
    case (Inr s')
    show ?thesis
    proof (cases "multiHandLandmarks r")
      case None
      then show ?thesis using Inr Results assms by (auto simp: onResults_def onNoHand_fields)
    next
      case (Some hands)
      show ?thesis
      proof (cases hands)
        case Nil
        then show ?thesis using Inr Results Some assms by (auto simp: onResults_def onNoHand_fields)
      next
        case (Cons lm others)
        then have h: "onHand lm s = Inr s'" using Inr Some by (simp add: onResults_def)
        show ?thesis using Inr Results assms
          by (simp add: onHand_store(1,3)[OF h] placeBlock_fields)
      qed
    qed
  qed
qed (use assms in \<open>simp_all add: initThree_fields handleResize_fields resetScene_fields\<close>)

lemma step_distinct:
  assumes "distinct (map position (placedCubesRef s))"
  shows "distinct (map position (placedCubesRef (step s e)))"
  using step_store[of s e] assms by (auto simp: occupied_iff)

lemma run_invariants:
  "blockCount (run evs) = int (placedSinceClear 0 (history (run evs)))
   \<and> blockCount (run evs) = int (length (placedCubesRef (run evs)))
   \<and> (sceneRef (run evs) = None \<longrightarrow> placedCubesRef (run evs) = [])
   \<and> distinct (map position (placedCubesRef (run evs)))"
proof (induction evs rule: rev_induct)
  case Nil
  show ?case by (simp add: run_Nil initial_state_def)
next
  case (snoc e evs)
  have a: "blockCount (run evs) = int (placedSinceClear 0 (history (run evs)))"
    and b: "blockCount (run evs) = int (length (placedCubesRef (run evs)))"
    and c: "sceneRef (run evs) = None \<longrightarrow> placedCubesRef (run evs) = []"
    and d: "distinct (map position (placedCubesRef (run evs)))"
    using snoc.IH by simp_all
  show ?case
    unfolding run_snoc
    by (intro conjI step_count_history[OF a] step_count_length[OF b c] step_scene_none[OF c]
        step_distinct[OF d])
qed

text \<open>Once the scene exists it stays; two pinches released at the same place.\<close>

lemma onHand_scene_none:
  assumes "onHand lm s = Inr s'"
  shows "sceneRef s' = None \<longleftrightarrow> sceneRef s = None"
  by (simp add: onHand_store(3)[OF assms] placeBlock_fields)

lemma step_scene_some:
  assumes "sceneRef s \<noteq> None"
  shows "sceneRef (step s e) \<noteq> None"
proof (cases e)
  case (Results r)
  show ?thesis
  proof (cases "onResults r s")
    case (Inl err)
    then show ?thesis using Results assms by simp
  next
    case (Inr s')
    show ?thesis
    proof (cases "multiHandLandmarks r")
      case None
      then show ?thesis using Inr Results assms by (auto simp: onResults_def onNoHand_fields)
    next
      case (Some hands)
      show ?thesis
      proof (cases hands)
        case Nil
        then show ?thesis using Inr Results Some assms by (auto simp: onResults_def onNoHand_fields)
      next
        case (Cons lm others)
        then have h: "onHand lm s = Inr s'" using Inr Some by (simp add: onResults_def)
        show ?thesis using Inr Results assms by (simp add: onHand_scene_none[OF h])
      qed
    qed
  qed
qed (use assms in \<open>simp_all add: initThree_fields handleResize_fields resetScene_fields\<close>)

lemma scene_after_mount: "Mount w \<in> set evs \<Longrightarrow> sceneRef (run evs) \<noteq> None"
proof (induction evs rule: rev_induct)
  case Nil
  then show ?case by simp
next
  case (snoc e evs)
  show ?case
  proof (cases "e = Mount w")
    case True
    then show ?thesis by (simp add: run_snoc initThree_fields)
  next
    case False
    then have "Mount w \<in> set evs" using snoc.prems by simp
    then have "sceneRef (run evs) \<noteq> None" by (rule snoc.IH)
    then show ?thesis unfolding run_snoc by (rule step_scene_some)
  qed
qed

lemma run_second_pinch:
  "run [Mount (16 / 9), Results pinch_results, Results open_results, Results pinch_results] =
     \<lparr>sceneRef = Some [\<lparr>position = Vector3 0 0 (- 6), visible = True\<rparr>],
      cameraRef = Some (PerspectiveCamera 70 (16 / 9) (1 / 100) 100),
      previewCubeRef = Some \<lparr>position = Vector3 0 0 (- 6), visible = True\<rparr>,
      placedCubesRef = [\<lparr>position = Vector3 0 0 (- 6), visible = True\<rparr>],
      lastPinchStateRef = True, blockCount = 1,
      history = [PreviewSet (Vector3 0 0 (- 6)) True, PreviewSet (Vector3 0 0 (- 6)) False,
                 CallPlaceBlock (Vector3 0 0 (- 6)), SceneAdd (Vector3 0 0 (- 6)),
                 PreviewSet (Vector3 0 0 (- 6)) True]\<rparr>"
proof -
  have "run [Mount (16 / 9), Results pinch_results, Results open_results, Results pinch_results]
        = step (run [Mount (16 / 9), Results pinch_results, Results open_results]) (Results pinch_results)"
    using run_snoc[of "[Mount (16 / 9), Results pinch_results, Results open_results]"
        "Results pinch_results"] by simp
  then show ?thesis
    unfolding run_mount_pinch_open
    by (simp add: pinch_results_def onResults_def onHand_pinch_hand getSnapped_wide)
qed

lemma run_second_release:
  "run [Mount (16 / 9), Results pinch_results, Results open_results, Results pinch_results,
        Results open_results] =
     \<lparr>sceneRef = Some [\<lparr>position = Vector3 0 0 (- 6), visible = True\<rparr>],
      cameraRef = Some (PerspectiveCamera 70 (16 / 9) (1 / 100) 100),
      previewCubeRef = Some \<lparr>position = Vector3 0 0 (- 6), visible = False\<rparr>,
      placedCubesRef = [\<lparr>position = Vector3 0 0 (- 6), visible = True\<rparr>],
      lastPinchStateRef = False, blockCount = 1,
      history = [PreviewSet (Vector3 0 0 (- 6)) True, PreviewSet (Vector3 0 0 (- 6)) False,
                 CallPlaceBlock (Vector3 0 0 (- 6)), SceneAdd (Vector3 0 0 (- 6)),
                 PreviewSet (Vector3 0 0 (- 6)) True, PreviewSet (Vector3 0 0 (- 6)) False,
                 CallPlaceBlock (Vector3 0 0 (- 6))]\<rparr>"
proof -
  have "run [Mount (16 / 9), Results pinch_results, Results open_results, Results pinch_results,
             Results open_results]
        = step (run [Mount (16 / 9), Results pinch_results, Results open_results,
                     Results pinch_results]) (Results open_results)"
    using run_snoc[of "[Mount (16 / 9), Results pinch_results, Results open_results,
        Results pinch_results]" "Results open_results"] by simp
  then show ?thesis
    unfolding run_second_pinch
    by (simp add: open_results_def onResults_def onHand_def open_hand_facts Let_def
        getSnapped_wide placeBlock_def vec_equals_def)
qed

lemma onResults_second_release:
  "onResults open_results
     (run [Mount (16 / 9), Results pinch_results, Results open_results, Results pinch_results])
   = Inr (run [Mount (16 / 9), Results pinch_results, Results open_results, Results pinch_results,
               Results open_results])"
  unfolding run_second_release run_second_pinch
  by (simp add: open_results_def onResults_def onHand_def open_hand_facts Let_def
      getSnapped_wide placeBlock_def vec_equals_def)

lemma onResults_second_pinch:
  "onResults pinch_results (run [Mount (16 / 9), Results pinch_results, Results open_results])
   = Inr (run [Mount (16 / 9), Results pinch_results, Results open_results, Results pinch_results])"
  unfolding run_second_pinch run_mount_pinch_open
  by (simp add: pinch_results_def onResults_def onHand_pinch_hand getSnapped_wide)

section \<open>Facts about Math.round\<close>

lemma Math_round_nearest: "\<bar>Math_round v - v\<bar> \<le> 1 / 2"
  unfolding Math_round_def by linarith

lemma Math_round_int: "Math_round (of_int k) = of_int k"
proof -
  have "\<lfloor>of_int k + 1 / 2 :: real\<rfloor> = k" by (rule floor_unique) simp_all
  then show ?thesis by (simp add: Math_round_def)
qed

lemma Math_round_tie: assumes "frac v = 1 / 2" shows "Math_round v = v + 1 / 2"
proof -
  have "v = of_int \<lfloor>v\<rfloor> + 1 / 2" using assms by (simp add: frac_def)
  then have "v + 1 / 2 = of_int (\<lfloor>v\<rfloor> + 1)" by simp
  then have "\<lfloor>v + 1 / 2\<rfloor> = \<lfloor>v\<rfloor> + 1" by (metis floor_of_int)
  then show ?thesis using \<open>v + 1 / 2 = of_int (\<lfloor>v\<rfloor> + 1)\<close> by (simp add: Math_round_def)
qed

lemma Math_round_low: assumes "frac v < 1 / 2" shows "Math_round v = of_int \<lfloor>v\<rfloor>"
proof -
  have "of_int \<lfloor>v\<rfloor> \<le> v + 1 / 2" by linarith
  moreover have "v + 1 / 2 < of_int \<lfloor>v\<rfloor> + 1" using assms by (simp add: frac_def)
  ultimately have "\<lfloor>v + 1 / 2\<rfloor> = \<lfloor>v\<rfloor>" by (rule floor_unique)
  then show ?thesis by (simp add: Math_round_def)
qed

lemma Math_round_high: assumes "1 / 2 < frac v" shows "Math_round v = of_int \<lfloor>v\<rfloor> + 1"
proof -
  have "of_int (\<lfloor>v\<rfloor> + 1) \<le> v + 1 / 2" using assms by (simp add: frac_def)
  moreover have "v + 1 / 2 < of_int (\<lfloor>v\<rfloor> + 1) + 1" by simp linarith
  ultimately have "\<lfloor>v + 1 / 2\<rfloor> = \<lfloor>v\<rfloor> + 1" by (rule floor_unique)
  then show ?thesis by (simp add: Math_round_def)
qed

lemma Math_round_even: assumes "frac v \<noteq> 1 / 2" shows "Math_round v = round_half_to_even v"
proof (cases "frac v < 1 / 2")
  case True
  then show ?thesis by (simp add: round_half_to_even_def Math_round_low)
next
  case False
  then have "1 / 2 < frac v" using assms by simp
  then show ?thesis by (simp add: round_half_to_even_def Math_round_high)
qed

lemma Math_round_away: assumes "frac v \<noteq> 1 / 2" shows "Math_round v = round_half_away_from_zero v"
proof (cases "0 \<le> v")
  case True
  then show ?thesis by (simp add: round_half_away_from_zero_def Math_round_def)
next
  case False
  define n where "n = \<lfloor>v + 1 / 2\<rfloor>"
  have le: "of_int n \<le> v + 1 / 2" and lt: "v + 1 / 2 < of_int n + 1"
    unfolding n_def by linarith+
  have ne: "of_int n \<noteq> v + 1 / 2"
  proof
    assume "of_int n = v + 1 / 2"
    then have "v - 1 / 2 = of_int (n - 1)" by simp
    then have "v - 1 / 2 \<in> \<int>" by (simp only: Ints_of_int)
    then have "frac v = 1 / 2" using frac_unique_iff[of v "1 / 2"] by simp
    with assms show False by simp
  qed
  have "of_int (- n) \<le> - v + 1 / 2" using lt by simp
  moreover have "- v + 1 / 2 < of_int (- n) + 1" using le ne by simp
  ultimately have "\<lfloor>- v + 1 / 2\<rfloor> = - n" by (rule floor_unique)
  then show ?thesis using False by (simp add: round_half_away_from_zero_def Math_round_def n_def)
qed

section \<open>The claims\<close>

subsection \<open>The projection\<close>

text \<open>
  Claim C5.  The camera of the component sits at the origin with the identity as world
  matrix, so it looks down the negative \<open>z\<close> axis; \<^verbatim>\<open>BUILD_DISTANCE\<close> is 6 and the cell
  size 1.  For every positive aspect ratio of the window: the screen point \<open>(x, y)\<close> has the
  device coordinates \<open>(2x - 1, 1 - 2y)\<close>, which are \<open>(0, 0)\<close> at the centre of the screen;
  the normalized direction of the ray through the centre is \<open>(0, 0, -1)\<close>; for every
  screen point the continuous world point lies exactly \<^verbatim>\<open>BUILD_DISTANCE\<close> from the
  camera; and the centre of the screen yields the world point \<open>(0, 0, -6)\<close>, which snaps to
  the lattice position \<open>(0, 0, -6)\<close>.
\<close>

theorem screen_centre_to_lattice:
  assumes "0 < a"
  shows "BUILD_DISTANCE = 6 \<and> GRID_SIZE = 1
    \<and> cam_position (PerspectiveCamera 70 a (1 / 100) 100) = Vector3 0 0 0
    \<and> matrixWorld (PerspectiveCamera 70 a (1 / 100) 100) = identity4
    \<and> ndcX x = 2 * x - 1 \<and> ndcY y = 1 - 2 * y
    \<and> ndcX (1 / 2) = 0 \<and> ndcY (1 / 2) = 0
    \<and> vec_normalize (vec_sub (unproject (Vector3 0 0 (1 / 2)) (PerspectiveCamera 70 a (1 / 100) 100))
         (cam_position (PerspectiveCamera 70 a (1 / 100) 100))) = Vector3 0 0 (- 1)
    \<and> vec_length (vec_sub (targetPos (PerspectiveCamera 70 a (1 / 100) 100) x y)
         (cam_position (PerspectiveCamera 70 a (1 / 100) 100))) = BUILD_DISTANCE
    \<and> targetPos (PerspectiveCamera 70 a (1 / 100) 100) (1 / 2) (1 / 2) = Vector3 0 0 (- 6)
    \<and> getSnappedWorldPosition (Some (PerspectiveCamera 70 a (1 / 100) 100)) (1 / 2) (1 / 2)
         = Vector3 0 0 (- 6)"
proof -
  have w: "matrixWorld (PerspectiveCamera 70 a (1 / 100) 100) = identity4"
    by (simp add: PerspectiveCamera_def updateProjectionMatrix_def Let_def)
  have d: "vec_normalize (vec_sub (unproject (Vector3 0 0 (1 / 2)) (PerspectiveCamera 70 a (1 / 100) 100))
         (cam_position (PerspectiveCamera 70 a (1 / 100) 100))) = Vector3 0 0 (- 1)"
    by (simp add: unproject_initial[OF assms] cam_position_initial vec_sub_origin vec_normalize_def
        divideScalar_def multiplyScalar_def vec_length_axis_z)
  show ?thesis
    using w d targetPos_distance[OF assms] targetPos_origin_center[OF assms] getSnapped_center[OF assms]
    by (simp add: BUILD_DISTANCE_def GRID_SIZE_def cam_position_initial ndcX_def ndcY_def)
qed

text \<open>The claim at a window of 16 by 9.\<close>

theorem screen_centre_to_lattice_witness:
  "(0::real) < 16 / 9
   \<and> targetPos (PerspectiveCamera 70 (16 / 9) (1 / 100) 100) (1 / 2) (1 / 2) = Vector3 0 0 (- 6)
   \<and> getSnappedWorldPosition (Some (PerspectiveCamera 70 (16 / 9) (1 / 100) 100)) (1 / 2) (1 / 2)
         = Vector3 0 0 (- 6)"
proof -
  have h: "(0::real) < 16 / 9" by simp
  show ?thesis using h screen_centre_to_lattice[OF h, of 0 0] by simp
qed

text \<open>
  Claim C9.  While \<^verbatim>\<open>cameraRef.current\<close> is \<^verbatim>\<open>null\<close> the projector does not throw: for every
  screen point it returns the origin \<open>(0, 0, 0)\<close>.
\<close>

theorem projector_default_without_camera: "getSnappedWorldPosition None x y = Vector3 0 0 0"
  by (simp add: getSnappedWorldPosition_def Vector3_new_def)

subsection \<open>Before the scene exists\<close>

text \<open>
  Claim C10.  While \<^verbatim>\<open>sceneRef.current\<close> is \<^verbatim>\<open>null\<close>, \<^verbatim>\<open>placeBlock\<close> changes nothing, for every
  position; and a frame with a hand (of at least nine landmarks) is processed without an
  exception, adds no voxel and leaves the block count as it was, whether or not it is a
  release.
\<close>

theorem placeBlock_without_scene:
  assumes "sceneRef s = None"
  shows "placeBlock pos s = s
    \<and> (9 \<le> length lm \<longrightarrow>
         (\<exists>s'. onResults \<lparr>multiHandLandmarks = Some (lm # others)\<rparr> s = Inr s'
            \<and> sceneRef s' = None \<and> placedCubesRef s' = placedCubesRef s
            \<and> blockCount s' = blockCount s
            \<and> placedSinceClear n (history s') = placedSinceClear n (history s)))"
proof (intro conjI impI)
  show "placeBlock pos s = s" using assms by (rule placeBlock_no_scene)
next
  assume len: "9 \<le> length lm"
  then obtain s' where s': "onHand lm s = Inr s'" using onHand_total by blast
  have h: "placedSinceClear n (history s') = placedSinceClear n (history s)"
    using assms by (simp add: onHand_history[OF s'] placedSinceClear_append split: option.splits)
  show "\<exists>s'. onResults \<lparr>multiHandLandmarks = Some (lm # others)\<rparr> s = Inr s'
            \<and> sceneRef s' = None \<and> placedCubesRef s' = placedCubesRef s
            \<and> blockCount s' = blockCount s
            \<and> placedSinceClear n (history s') = placedSinceClear n (history s)"
    using s' h assms by (simp add: onResults_def onHand_store[OF s'] placeBlock_no_scene)
qed

text \<open>A release edge before the initialisation: a pinch, then an open hand.\<close>

theorem placeBlock_without_scene_witness:
  "sceneRef (run [Results pinch_results]) = None
   \<and> lastPinchStateRef (run [Results pinch_results])
   \<and> 9 \<le> length open_hand \<and> \<not> isPinching open_hand
   \<and> placeBlock (Vector3 0 0 0) (run [Results pinch_results]) = run [Results pinch_results]
   \<and> (\<exists>s'. onResults \<lparr>multiHandLandmarks = Some [open_hand]\<rparr> (run [Results pinch_results]) = Inr s'
          \<and> sceneRef s' = None \<and> placedCubesRef s' = [] \<and> blockCount s' = 0
          \<and> placedSinceClear 0 (history s') = 0)"
proof -
  have a: "sceneRef (run [Results pinch_results]) = None"
    by (simp add: run_pinch_unmounted initial_state_def)
  have b: "9 \<le> length open_hand" by (simp add: open_hand_facts)
  show ?thesis
    using a b placeBlock_without_scene[OF a, of "Vector3 0 0 0" open_hand "[]" 0]
    by (simp add: open_hand_facts run_pinch_unmounted initial_state_def)
qed

subsection \<open>Frames without a hand\<close>

text \<open>
  Claim C6.  A result whose list of hands is missing or empty is processed without an
  exception; afterwards the preview, if there is one, is hidden, the remembered pinch
  state is false, and the store, the scene and the block count are what they were: the
  frame calls \<^verbatim>\<open>placeBlock\<close> not at all, also when the hand is lost in the middle of a
  pinch.
\<close>

theorem no_hand_forces_idle:
  assumes "multiHandLandmarks r = None \<or> multiHandLandmarks r = Some []"
  shows "\<exists>s'. onResults r s = Inr s' \<and> step s (Results r) = s'
    \<and> previewCubeRef s' = map_option (\<lambda>p. p\<lparr>visible := False\<rparr>) (previewCubeRef s)
    \<and> map_option visible (previewCubeRef s') \<noteq> Some True
    \<and> \<not> lastPinchStateRef s'
    \<and> placedCubesRef s' = placedCubesRef s \<and> sceneRef s' = sceneRef s
    \<and> blockCount s' = blockCount s
    \<and> history s' = history s @ (case previewCubeRef s of None \<Rightarrow> [] | Some p \<Rightarrow> [PreviewHide])
    \<and> placeCalls (history s') = placeCalls (history s)
    \<and> placedSinceClear n (history s') = placedSinceClear n (history s)"
proof -
  have r: "onResults r s = Inr (onNoHand s)" using assms by (rule onResults_no_hand)
  have v: "map_option visible (previewCubeRef (onNoHand s)) \<noteq> Some True"
    by (cases "previewCubeRef s") (simp_all add: onNoHand_fields)
  have c: "placeCalls (history (onNoHand s)) = placeCalls (history s)"
    by (cases "previewCubeRef s") (simp_all add: onNoHand_fields placeCalls_append)
  have p: "placedSinceClear n (history (onNoHand s)) = placedSinceClear n (history s)"
    by (cases "previewCubeRef s") (simp_all add: onNoHand_fields placedSinceClear_append)
  show ?thesis using r v c p by (auto simp: onNoHand_fields)
qed

text \<open>The hand is lost in the middle of a pinch, with the preview showing.\<close>

theorem no_hand_forces_idle_witness:
  "lastPinchStateRef (run [Mount (16 / 9), Results pinch_results])
   \<and> map_option visible (previewCubeRef (run [Mount (16 / 9), Results pinch_results])) = Some True
   \<and> (\<exists>s'. onResults \<lparr>multiHandLandmarks = Some []\<rparr> (run [Mount (16 / 9), Results pinch_results]) = Inr s'
        \<and> map_option visible (previewCubeRef s') = Some False
        \<and> \<not> lastPinchStateRef s' \<and> placedCubesRef s' = [] \<and> blockCount s' = 0
        \<and> history s' = [PreviewSet (Vector3 0 0 (- 6)) True, PreviewHide])"
proof -
  have a: "multiHandLandmarks \<lparr>multiHandLandmarks = Some []\<rparr> = None
         \<or> multiHandLandmarks \<lparr>multiHandLandmarks = Some []\<rparr> = Some []" by simp
  show ?thesis
    using no_hand_forces_idle[OF a, of "run [Mount (16 / 9), Results pinch_results]" 0]
    by (auto simp: run_mount_pinch)
qed

subsection \<open>The pinch detector\<close>

text \<open>
  Claim C2.  \<^verbatim>\<open>PINCH_THRESHOLD\<close> is 0.045.  A frame with a hand (of at least nine landmarks) is
  processed without an exception, and its \<^verbatim>\<open>isPinching\<close>, which the callback stores in
  \<^verbatim>\<open>lastPinchStateRef\<close> and in the visibility of the preview, is true exactly when the
  Euclidean distance in \<open>(x, y, z)\<close> space of landmark 4 and landmark 8 is strictly less
  than the threshold; at a distance equal to the threshold or greater it is false.
\<close>

theorem pinch_iff_below_threshold:
  assumes "9 \<le> length lm"
  shows "PINCH_THRESHOLD = 45 / 1000
    \<and> (\<exists>s'. onResults \<lparr>multiHandLandmarks = Some (lm # others)\<rparr> s = Inr s'
          \<and> (lastPinchStateRef s' \<longleftrightarrow> euclidean_distance (lm ! 4) (lm ! 8) < PINCH_THRESHOLD)
          \<and> map_option visible (previewCubeRef s')
               = map_option (\<lambda>p. euclidean_distance (lm ! 4) (lm ! 8) < PINCH_THRESHOLD) (previewCubeRef s))
    \<and> (isPinching lm \<longleftrightarrow> euclidean_distance (lm ! 4) (lm ! 8) < PINCH_THRESHOLD)
    \<and> (PINCH_THRESHOLD \<le> euclidean_distance (lm ! 4) (lm ! 8) \<longrightarrow> \<not> isPinching lm)"
proof -
  obtain s' where s': "onHand lm s = Inr s'" using assms onHand_total by blast
  have p: "isPinching lm \<longleftrightarrow> euclidean_distance (lm ! 4) (lm ! 8) < PINCH_THRESHOLD"
    by (simp add: isPinching_def pinchDistance_euclidean)
  have v: "map_option visible (previewCubeRef s')
               = map_option (\<lambda>p. euclidean_distance (lm ! 4) (lm ! 8) < PINCH_THRESHOLD) (previewCubeRef s)"
    by (cases "previewCubeRef s") (simp_all add: onHand_preview[OF s'] p)
  show ?thesis
    using s' v p onHand_lastPinch[OF s'] by (auto simp: onResults_def PINCH_THRESHOLD_def)
qed

text \<open>The boundary: thumb tip and index tip exactly \<^verbatim>\<open>PINCH_THRESHOLD\<close> apart.\<close>

theorem pinch_iff_below_threshold_witness:
  "9 \<le> length boundary_hand
   \<and> euclidean_distance (boundary_hand ! 4) (boundary_hand ! 8) = PINCH_THRESHOLD
   \<and> \<not> isPinching boundary_hand
   \<and> (\<exists>s'. onResults \<lparr>multiHandLandmarks = Some [boundary_hand]\<rparr> initial_state = Inr s'
         \<and> \<not> lastPinchStateRef s')"
proof -
  have a: "9 \<le> length boundary_hand" by (simp add: boundary_hand_facts)
  show ?thesis
    using a pinch_iff_below_threshold[OF a, of "[]" initial_state]
    by (auto simp: boundary_hand_facts PINCH_THRESHOLD_def)
qed

text \<open>
  Claim C1 says that a placement is committed on every release edge.  After the
  initialisation, a pinch and its release at the centre of the screen place a voxel at
  \<open>(0, 0, -6)\<close>.  A second pinch and release at the same place is a release edge again, and
  \<^verbatim>\<open>placeBlock\<close> is called with \<open>(0, 0, -6)\<close>; but the cell is occupied, and the store, the
  scene and the block count stay what they were: nothing is committed.
\<close>

theorem release_without_commit_counterexample:
  "onResults pinch_results (run [Mount (16 / 9), Results pinch_results, Results open_results])
     = Inr (run [Mount (16 / 9), Results pinch_results, Results open_results, Results pinch_results])
   \<and> onResults open_results
       (run [Mount (16 / 9), Results pinch_results, Results open_results, Results pinch_results])
     = Inr (run [Mount (16 / 9), Results pinch_results, Results open_results, Results pinch_results,
                 Results open_results])
   \<and> isPinching pinch_hand \<and> \<not> isPinching open_hand
   \<and> placeCalls (history (run [Mount (16 / 9), Results pinch_results, Results open_results,
         Results pinch_results, Results open_results]))
       = placeCalls (history (run [Mount (16 / 9), Results pinch_results, Results open_results,
           Results pinch_results])) @ [Vector3 0 0 (- 6)]
   \<and> placedCubesRef (run [Mount (16 / 9), Results pinch_results, Results open_results,
         Results pinch_results, Results open_results])
       = placedCubesRef (run [Mount (16 / 9), Results pinch_results, Results open_results,
           Results pinch_results])
   \<and> sceneRef (run [Mount (16 / 9), Results pinch_results, Results open_results,
         Results pinch_results, Results open_results])
       = sceneRef (run [Mount (16 / 9), Results pinch_results, Results open_results,
           Results pinch_results])
   \<and> blockCount (run [Mount (16 / 9), Results pinch_results, Results open_results,
         Results pinch_results, Results open_results]) = 1
   \<and> blockCount (run [Mount (16 / 9), Results pinch_results, Results open_results,
         Results pinch_results]) = 1"
  using onResults_second_pinch onResults_second_release
  by (simp add: run_second_release run_second_pinch pinch_hand_facts open_hand_facts)

text \<open>
  Claim C1, amended.  Let two frames with a hand (of at least nine landmarks each) be
  processed one after the other, from any state.  The second one calls \<^verbatim>\<open>placeBlock\<close>, with
  the position snapped from the second frame (the release edge fires), if and only if the
  first frame was pinching and the second is not.  A voxel is added to the store on the
  second frame (a placement is committed) if and only if, moreover, the scene exists and no
  voxel occupies that position; the voxel is then at that position and the count is raised
  by one, and in every other case store and count stay what they were.  The scene exists
  after the first frame exactly when it existed before, and it exists after every run that
  contains the initialisation.  A frame without a hand resets the remembered pinch state
  to false and calls \<^verbatim>\<open>placeBlock\<close> not at all, and the frame with a hand that follows it calls
  \<^verbatim>\<open>placeBlock\<close> not at all either and leaves the store as it was, whatever the state was
  before the hand was lost.
\<close>

theorem release_edge_and_commit:
  assumes "9 \<le> length lm1" and "9 \<le> length lm2"
  shows "(\<exists>s1 s2. onResults \<lparr>multiHandLandmarks = Some (lm1 # others1)\<rparr> s = Inr s1
            \<and> onResults \<lparr>multiHandLandmarks = Some (lm2 # others2)\<rparr> s1 = Inr s2
            \<and> (placeCalls (history s2) \<noteq> placeCalls (history s1)
                 \<longleftrightarrow> isPinching lm1 \<and> \<not> isPinching lm2)
            \<and> placeCalls (history s2) = placeCalls (history s1)
                 @ (if isPinching lm1 \<and> \<not> isPinching lm2
                    then [getSnappedWorldPosition (cameraRef s1) (midpointX lm2) (midpointY lm2)]
                    else [])
            \<and> (placedCubesRef s2 \<noteq> placedCubesRef s1
                 \<longleftrightarrow> isPinching lm1 \<and> \<not> isPinching lm2 \<and> sceneRef s1 \<noteq> None
                     \<and> \<not> list_ex (\<lambda>c. vec_equals (position c)
                            (getSnappedWorldPosition (cameraRef s1) (midpointX lm2) (midpointY lm2)))
                          (placedCubesRef s1))
            \<and> placedCubesRef s2 =
                 (if isPinching lm1 \<and> \<not> isPinching lm2 \<and> sceneRef s1 \<noteq> None
                     \<and> \<not> list_ex (\<lambda>c. vec_equals (position c)
                            (getSnappedWorldPosition (cameraRef s1) (midpointX lm2) (midpointY lm2)))
                          (placedCubesRef s1)
                  then placedCubesRef s1
                       @ [\<lparr>position = getSnappedWorldPosition (cameraRef s1) (midpointX lm2) (midpointY lm2),
                           visible = True\<rparr>]
                  else placedCubesRef s1)
            \<and> blockCount s2 =
                 (if isPinching lm1 \<and> \<not> isPinching lm2 \<and> sceneRef s1 \<noteq> None
                     \<and> \<not> list_ex (\<lambda>c. vec_equals (position c)
                            (getSnappedWorldPosition (cameraRef s1) (midpointX lm2) (midpointY lm2)))
                          (placedCubesRef s1)
                  then blockCount s1 + 1 else blockCount s1)
            \<and> (sceneRef s1 = None \<longleftrightarrow> sceneRef s = None))
    \<and> ((multiHandLandmarks r = None \<or> multiHandLandmarks r = Some []) \<longrightarrow>
          (\<exists>s1 s2. onResults r s = Inr s1 \<and> \<not> lastPinchStateRef s1
             \<and> placeCalls (history s1) = placeCalls (history s)
             \<and> onResults \<lparr>multiHandLandmarks = Some (lm2 # others2)\<rparr> s1 = Inr s2
             \<and> placeCalls (history s2) = placeCalls (history s1)
             \<and> placedCubesRef s2 = placedCubesRef s))
    \<and> (Mount w \<in> set evs \<longrightarrow> sceneRef (run evs) \<noteq> None)"
proof (intro conjI impI)
  obtain s1 where s1: "onHand lm1 s = Inr s1" using assms(1) onHand_total by blast
  obtain s2 where s2: "onHand lm2 s1 = Inr s2" using assms(2) onHand_total by blast
  have l: "lastPinchStateRef s1 = isPinching lm1" using s1 by (rule onHand_lastPinch)
  let ?pos = "getSnappedWorldPosition (cameraRef s1) (midpointX lm2) (midpointY lm2)"
  let ?commit = "isPinching lm1 \<and> \<not> isPinching lm2 \<and> sceneRef s1 \<noteq> None
                     \<and> \<not> list_ex (\<lambda>c. vec_equals (position c) ?pos) (placedCubesRef s1)"
  have c: "placeCalls (history s2) = placeCalls (history s1)
                 @ (if isPinching lm1 \<and> \<not> isPinching lm2 then [?pos] else [])"
    by (simp add: onHand_history[OF s2] placeCalls_append l split: option.splits)
  have p: "placedCubesRef s2 =
             (if ?commit then placedCubesRef s1 @ [\<lparr>position = ?pos, visible = True\<rparr>]
              else placedCubesRef s1)"
    by (simp add: onHand_store(1)[OF s2] l placeBlock_fields)
  have b: "blockCount s2 = (if ?commit then blockCount s1 + 1 else blockCount s1)"
    by (simp add: onHand_store(2)[OF s2] l placeBlock_fields)
  have n: "placedCubesRef s2 \<noteq> placedCubesRef s1 \<longleftrightarrow> ?commit"
    unfolding p by simp
  have sc: "sceneRef s1 = None \<longleftrightarrow> sceneRef s = None" using s1 by (rule onHand_scene_none)
  show "\<exists>s1 s2. onResults \<lparr>multiHandLandmarks = Some (lm1 # others1)\<rparr> s = Inr s1
            \<and> onResults \<lparr>multiHandLandmarks = Some (lm2 # others2)\<rparr> s1 = Inr s2
            \<and> (placeCalls (history s2) \<noteq> placeCalls (history s1)
                 \<longleftrightarrow> isPinching lm1 \<and> \<not> isPinching lm2)
            \<and> placeCalls (history s2) = placeCalls (history s1)
                 @ (if isPinching lm1 \<and> \<not> isPinching lm2
                    then [getSnappedWorldPosition (cameraRef s1) (midpointX lm2) (midpointY lm2)]
                    else [])
            \<and> (placedCubesRef s2 \<noteq> placedCubesRef s1
                 \<longleftrightarrow> isPinching lm1 \<and> \<not> isPinching lm2 \<and> sceneRef s1 \<noteq> None
                     \<and> \<not> list_ex (\<lambda>c. vec_equals (position c)
                            (getSnappedWorldPosition (cameraRef s1) (midpointX lm2) (midpointY lm2)))
                          (placedCubesRef s1))
            \<and> placedCubesRef s2 =
                 (if isPinching lm1 \<and> \<not> isPinching lm2 \<and> sceneRef s1 \<noteq> None
                     \<and> \<not> list_ex (\<lambda>c. vec_equals (position c)
                            (getSnappedWorldPosition (cameraRef s1) (midpointX lm2) (midpointY lm2)))
                          (placedCubesRef s1)
                  then placedCubesRef s1
                       @ [\<lparr>position = getSnappedWorldPosition (cameraRef s1) (midpointX lm2) (midpointY lm2),
                           visible = True\<rparr>]
                  else placedCubesRef s1)
            \<and> blockCount s2 =
                 (if isPinching lm1 \<and> \<not> isPinching lm2 \<and> sceneRef s1 \<noteq> None
                     \<and> \<not> list_ex (\<lambda>c. vec_equals (position c)
                            (getSnappedWorldPosition (cameraRef s1) (midpointX lm2) (midpointY lm2)))
                          (placedCubesRef s1)
                  then blockCount s1 + 1 else blockCount s1)
            \<and> (sceneRef s1 = None \<longleftrightarrow> sceneRef s = None)"
    apply (rule exI[of _ s1], rule exI[of _ s2])
    apply (intro conjI)
    subgoal using s1 by (simp add: onResults_def)
    subgoal using s2 by (simp add: onResults_def)
    subgoal using c by simp
    subgoal using c by simp
    subgoal using n .
    subgoal using p .
    subgoal using b .
    subgoal using sc .
    done
next
  assume n: "multiHandLandmarks r = None \<or> multiHandLandmarks r = Some []"
  obtain s2 where s2: "onHand lm2 (onNoHand s) = Inr s2" using assms(2) onHand_total by blast
  have c1: "placeCalls (history (onNoHand s)) = placeCalls (history s)"
    by (cases "previewCubeRef s") (simp_all add: onNoHand_fields placeCalls_append)
  have c2: "placeCalls (history s2) = placeCalls (history (onNoHand s))"
    by (simp add: onHand_history[OF s2] placeCalls_append onNoHand_fields(1) split: option.splits)
  have p2: "placedCubesRef s2 = placedCubesRef s"
    by (simp add: onHand_store(1)[OF s2] onNoHand_fields(1,2))
  show "\<exists>s1 s2. onResults r s = Inr s1 \<and> \<not> lastPinchStateRef s1
             \<and> placeCalls (history s1) = placeCalls (history s)
             \<and> onResults \<lparr>multiHandLandmarks = Some (lm2 # others2)\<rparr> s1 = Inr s2
             \<and> placeCalls (history s2) = placeCalls (history s1)
             \<and> placedCubesRef s2 = placedCubesRef s"
    apply (rule exI[of _ "onNoHand s"], rule exI[of _ s2])
    using s2 c1 c2 p2 onResults_no_hand[OF n] by (simp add: onResults_def onNoHand_fields(1))
next
  assume "Mount w \<in> set evs"
  then show "sceneRef (run evs) \<noteq> None" by (rule scene_after_mount)
qed

text \<open>A pinch and its release right after the initialisation, where the cell is empty; and
  an open hand after a frame without a hand.\<close>

theorem release_edge_and_commit_witness:
  "9 \<le> length pinch_hand \<and> 9 \<le> length open_hand
   \<and> isPinching pinch_hand \<and> \<not> isPinching open_hand
   \<and> Mount (16 / 9) \<in> set [Mount (16 / 9)]
   \<and> sceneRef (run [Mount (16 / 9)]) \<noteq> None
   \<and> (\<exists>s1 s2. onResults \<lparr>multiHandLandmarks = Some [pinch_hand]\<rparr> (run [Mount (16 / 9)]) = Inr s1
          \<and> onResults \<lparr>multiHandLandmarks = Some [open_hand]\<rparr> s1 = Inr s2
          \<and> placeCalls (history s2) \<noteq> placeCalls (history s1))
   \<and> (\<exists>s1 s2. onResults \<lparr>multiHandLandmarks = None\<rparr> (run [Mount (16 / 9)]) = Inr s1
          \<and> \<not> lastPinchStateRef s1
          \<and> onResults \<lparr>multiHandLandmarks = Some [open_hand]\<rparr> s1 = Inr s2
          \<and> placeCalls (history s2) = placeCalls (history s1)
          \<and> placedCubesRef s2 = placedCubesRef (run [Mount (16 / 9)]))"
proof -
  have a: "9 \<le> length pinch_hand" by (simp add: pinch_hand_facts)
  have b: "9 \<le> length open_hand" by (simp add: open_hand_facts)
  show ?thesis
    using a b release_edge_and_commit[OF a b, of "[]" "run [Mount (16 / 9)]" "[]"
        "\<lparr>multiHandLandmarks = None\<rparr>" "16 / 9" "[Mount (16 / 9)]"]
    by (simp add: pinch_hand_facts open_hand_facts) blast
qed

subsection \<open>The voxel store\<close>

text \<open>
  Claim C3.  Two positions are equal when their three coordinates are equal, exactly.
  For every position, on the lattice or off it: if a voxel occupies the position,
  \<^verbatim>\<open>placeBlock\<close> at that position changes nothing.  In every state in which the scene
  exists, and so after every run of the component that contains its initialisation (the
  callback that calls \<^verbatim>\<open>placeBlock\<close> is registered after it), \<^verbatim>\<open>placeBlock\<close> at an empty
  position appends one voxel and raises the count by one, a second call at the same
  position changes nothing more, and so the two calls raise the count by exactly one.  In
  every run of the component the placed voxels have pairwise different positions.
\<close>

theorem place_idempotent:
  "(vec_equals a b \<longleftrightarrow> v_x a = v_x b \<and> v_y a = v_y b \<and> v_z a = v_z b)
   \<and> (list_ex (\<lambda>c. vec_equals (position c) pos) (placedCubesRef s) \<longrightarrow> placeBlock pos s = s)
   \<and> (sceneRef s \<noteq> None \<and> \<not> list_ex (\<lambda>c. vec_equals (position c) q) (placedCubesRef s) \<longrightarrow>
         blockCount (placeBlock q s) = blockCount s + 1
         \<and> placedCubesRef (placeBlock q s) = placedCubesRef s @ [\<lparr>position = q, visible = True\<rparr>]
         \<and> placeBlock q (placeBlock q s) = placeBlock q s
         \<and> blockCount (placeBlock q (placeBlock q s)) = blockCount s + 1)
   \<and> (Mount w \<in> set evs
       \<and> \<not> list_ex (\<lambda>c. vec_equals (position c) q) (placedCubesRef (run evs)) \<longrightarrow>
         blockCount (placeBlock q (run evs)) = blockCount (run evs) + 1
         \<and> placedCubesRef (placeBlock q (run evs))
             = placedCubesRef (run evs) @ [\<lparr>position = q, visible = True\<rparr>]
         \<and> placeBlock q (placeBlock q (run evs)) = placeBlock q (run evs)
         \<and> blockCount (placeBlock q (placeBlock q (run evs))) = blockCount (run evs) + 1)
   \<and> distinct (map position (placedCubesRef (run evs)))"
proof -
  have e: "vec_equals a b \<longleftrightarrow> v_x a = v_x b \<and> v_y a = v_y b \<and> v_z a = v_z b"
    by (auto simp: vec_equals_def)
  have o: "list_ex (\<lambda>c. vec_equals (position c) pos) (placedCubesRef s) \<longrightarrow> placeBlock pos s = s"
    using placeBlock_occupied by blast
  have f: "sceneRef t \<noteq> None \<and> \<not> list_ex (\<lambda>c. vec_equals (position c) q) (placedCubesRef t) \<longrightarrow>
         blockCount (placeBlock q t) = blockCount t + 1
         \<and> placedCubesRef (placeBlock q t) = placedCubesRef t @ [\<lparr>position = q, visible = True\<rparr>]
         \<and> placeBlock q (placeBlock q t) = placeBlock q t
         \<and> blockCount (placeBlock q (placeBlock q t)) = blockCount t + 1" for t
    by (simp add: placeBlock_twice placeBlock_fields)
  have m: "Mount w \<in> set evs \<longrightarrow> sceneRef (run evs) \<noteq> None"
    using scene_after_mount by blast
  have d: "distinct (map position (placedCubesRef (run evs)))"
    using run_invariants[of evs] by simp
  show ?thesis using e o f[of s] f[of "run evs"] m d by blast
qed

text \<open>After one placement at \<open>(0, 0, -6)\<close>: that position is occupied, \<open>(1, 0, -6)\<close> is empty.\<close>

theorem place_idempotent_witness:
  "list_ex (\<lambda>c. vec_equals (position c) (Vector3 0 0 (- 6)))
     (placedCubesRef (run [Mount (16 / 9), Results pinch_results, Results open_results]))
   \<and> Mount (16 / 9) \<in> set [Mount (16 / 9), Results pinch_results, Results open_results]
   \<and> sceneRef (run [Mount (16 / 9), Results pinch_results, Results open_results]) \<noteq> None
   \<and> \<not> list_ex (\<lambda>c. vec_equals (position c) (Vector3 1 0 (- 6)))
     (placedCubesRef (run [Mount (16 / 9), Results pinch_results, Results open_results]))
   \<and> placeBlock (Vector3 0 0 (- 6)) (run [Mount (16 / 9), Results pinch_results, Results open_results])
       = run [Mount (16 / 9), Results pinch_results, Results open_results]
   \<and> blockCount (run [Mount (16 / 9), Results pinch_results, Results open_results]) = 1
   \<and> blockCount (placeBlock (Vector3 1 0 (- 6))
        (placeBlock (Vector3 1 0 (- 6)) (run [Mount (16 / 9), Results pinch_results, Results open_results])))
       = 2"
proof -
  have a: "list_ex (\<lambda>c. vec_equals (position c) (Vector3 0 0 (- 6)))
     (placedCubesRef (run [Mount (16 / 9), Results pinch_results, Results open_results]))"
    by (simp add: run_mount_pinch_open vec_equals_def)
  have b: "sceneRef (run [Mount (16 / 9), Results pinch_results, Results open_results]) \<noteq> None
   \<and> \<not> list_ex (\<lambda>c. vec_equals (position c) (Vector3 1 0 (- 6)))
     (placedCubesRef (run [Mount (16 / 9), Results pinch_results, Results open_results]))"
    by (simp add: run_mount_pinch_open vec_equals_def)
  have c: "blockCount (run [Mount (16 / 9), Results pinch_results, Results open_results]) = 1"
    by (simp add: run_mount_pinch_open)
  have m: "Mount (16 / 9) \<in> set [Mount (16 / 9), Results pinch_results, Results open_results]"
    by simp
  show ?thesis
    using a b c m place_idempotent[of "Vector3 0 0 0" "Vector3 0 0 0" "Vector3 0 0 (- 6)"
        "run [Mount (16 / 9), Results pinch_results, Results open_results]" "Vector3 1 0 (- 6)"
        "16 / 9" "[Mount (16 / 9), Results pinch_results, Results open_results]"]
    by simp
qed

text \<open>
  Claim C7.  After every run of the component the block count equals the number of voxels
  added by \<^verbatim>\<open>placeBlock\<close> since the scene was last emptied by \<^verbatim>\<open>resetScene\<close> (or since the
  start), and equals the number of voxels in the store; \<^verbatim>\<open>resetScene\<close> then leaves the count
  0 and the store empty; and one more event leaves the store as it was, or appends one
  voxel to it (a tracking result), or empties it (\<^verbatim>\<open>Clear Scene\<close>).
\<close>

theorem count_is_places_since_clear:
  "blockCount (run evs) = int (placedSinceClear 0 (history (run evs)))
   \<and> blockCount (run evs) = int (length (placedCubesRef (run evs)))
   \<and> blockCount (resetScene (run evs)) = 0
   \<and> placedCubesRef (resetScene (run evs)) = []
   \<and> blockCount (run (evs @ [ClearScene])) = 0
   \<and> (placedCubesRef (step (run evs) e) = placedCubesRef (run evs)
       \<or> (\<exists>r p. e = Results r
             \<and> placedCubesRef (step (run evs) e)
                 = placedCubesRef (run evs) @ [\<lparr>position = p, visible = True\<rparr>])
       \<or> (e = ClearScene \<and> placedCubesRef (step (run evs) e) = []))"
proof -
  have i: "blockCount (run evs) = int (placedSinceClear 0 (history (run evs)))"
    "blockCount (run evs) = int (length (placedCubesRef (run evs)))"
    "sceneRef (run evs) = None \<longrightarrow> placedCubesRef (run evs) = []"
    using run_invariants[of evs] by simp_all
  have c: "blockCount (resetScene (run evs)) = 0" "placedCubesRef (resetScene (run evs)) = []"
    using i(2,3) by (simp_all add: resetScene_fields)
  have r: "blockCount (run (evs @ [ClearScene])) = 0"
    using c(1) by (simp add: run_snoc)
  have g: "placedCubesRef (step (run evs) e) = placedCubesRef (run evs)
       \<or> (\<exists>r p. e = Results r
             \<and> placedCubesRef (step (run evs) e)
                 = placedCubesRef (run evs) @ [\<lparr>position = p, visible = True\<rparr>])
       \<or> (e = ClearScene \<and> placedCubesRef (step (run evs) e) = [])"
    using step_store[of "run evs" e] by blast
  show ?thesis using i(1,2) c r g by blast
qed

subsection \<open>The order of effects on a release\<close>

text \<open>
  Claim C8 says that on the frame of a release \<^verbatim>\<open>placeBlock\<close> is called before the preview
  is hidden.  After the initialisation, a pinch and its release at the centre of the
  screen, the history shows the preview hidden first and \<^verbatim>\<open>placeBlock\<close> called afterwards.
\<close>

theorem release_order_counterexample:
  "history (run [Mount (16 / 9), Results pinch_results, Results open_results])
     = [PreviewSet (Vector3 0 0 (- 6)) True, PreviewSet (Vector3 0 0 (- 6)) False,
        CallPlaceBlock (Vector3 0 0 (- 6)), SceneAdd (Vector3 0 0 (- 6))]
   \<and> \<not> precedes (CallPlaceBlock (Vector3 0 0 (- 6))) (PreviewSet (Vector3 0 0 (- 6)) False)
         (history (run [Mount (16 / 9), Results pinch_results, Results open_results]))
   \<and> precedes (PreviewSet (Vector3 0 0 (- 6)) False) (CallPlaceBlock (Vector3 0 0 (- 6)))
         (history (run [Mount (16 / 9), Results pinch_results, Results open_results]))"
  by (simp add: run_mount_pinch_open)

text \<open>
  Claim C8, amended.  On a frame with a hand (of at least nine landmarks) that is not
  pinching, processed while the remembered pinch state is true, the callback first moves
  the preview, if there is one, to the position snapped from the midpoint of this frame's
  thumb tip and index tip and hides it, and then calls \<^verbatim>\<open>placeBlock\<close> once, with that same
  position; a voxel is added when the scene exists and the position is empty.
\<close>

theorem release_places_after_hiding:
  assumes "9 \<le> length lm" and "lastPinchStateRef s" and "\<not> isPinching lm"
  shows "\<exists>s'. onResults \<lparr>multiHandLandmarks = Some (lm # others)\<rparr> s = Inr s'
    \<and> placeCalls (history s') = placeCalls (history s)
        @ [getSnappedWorldPosition (cameraRef s)
             ((lm_x (lm ! 4) + lm_x (lm ! 8)) / 2) ((lm_y (lm ! 4) + lm_y (lm ! 8)) / 2)]
    \<and> previewCubeRef s' =
        map_option (\<lambda>p. p\<lparr>position := getSnappedWorldPosition (cameraRef s)
             ((lm_x (lm ! 4) + lm_x (lm ! 8)) / 2) ((lm_y (lm ! 4) + lm_y (lm ! 8)) / 2),
             visible := False\<rparr>) (previewCubeRef s)
    \<and> history s' = history s
        @ (case previewCubeRef s of None \<Rightarrow> []
           | Some p \<Rightarrow> [PreviewSet (getSnappedWorldPosition (cameraRef s)
               ((lm_x (lm ! 4) + lm_x (lm ! 8)) / 2) ((lm_y (lm ! 4) + lm_y (lm ! 8)) / 2)) False])
        @ CallPlaceBlock (getSnappedWorldPosition (cameraRef s)
               ((lm_x (lm ! 4) + lm_x (lm ! 8)) / 2) ((lm_y (lm ! 4) + lm_y (lm ! 8)) / 2))
        # (if sceneRef s \<noteq> None
              \<and> \<not> list_ex (\<lambda>c. vec_equals (position c) (getSnappedWorldPosition (cameraRef s)
                   ((lm_x (lm ! 4) + lm_x (lm ! 8)) / 2) ((lm_y (lm ! 4) + lm_y (lm ! 8)) / 2)))
                   (placedCubesRef s)
           then [SceneAdd (getSnappedWorldPosition (cameraRef s)
               ((lm_x (lm ! 4) + lm_x (lm ! 8)) / 2) ((lm_y (lm ! 4) + lm_y (lm ! 8)) / 2))]
           else [])"
proof -
  obtain s' where s': "onHand lm s = Inr s'" using assms(1) onHand_total by blast
  have h: "history s' = history s
        @ (case previewCubeRef s of None \<Rightarrow> []
           | Some p \<Rightarrow> [PreviewSet (getSnappedWorldPosition (cameraRef s) (midpointX lm) (midpointY lm)) False])
        @ CallPlaceBlock (getSnappedWorldPosition (cameraRef s) (midpointX lm) (midpointY lm))
        # (if sceneRef s \<noteq> None
              \<and> \<not> list_ex (\<lambda>c. vec_equals (position c)
                    (getSnappedWorldPosition (cameraRef s) (midpointX lm) (midpointY lm))) (placedCubesRef s)
           then [SceneAdd (getSnappedWorldPosition (cameraRef s) (midpointX lm) (midpointY lm))]
           else [])"
    using assms(2,3) by (simp add: onHand_history[OF s'] split: option.splits)
  have c: "placeCalls (history s') = placeCalls (history s)
        @ [getSnappedWorldPosition (cameraRef s) (midpointX lm) (midpointY lm)]"
    unfolding h by (simp add: placeCalls_append split: option.splits)
  have p: "previewCubeRef s' =
        map_option (\<lambda>p. p\<lparr>position := getSnappedWorldPosition (cameraRef s) (midpointX lm) (midpointY lm),
             visible := False\<rparr>) (previewCubeRef s)"
    using assms(3) by (simp add: onHand_preview[OF s'])
  show ?thesis
    apply (rule exI[of _ s'])
    using s' h[unfolded midpointX_def midpointY_def] c[unfolded midpointX_def midpointY_def]
      p[unfolded midpointX_def midpointY_def]
    by (simp add: onResults_def)
qed

text \<open>The release of a pinch at the centre of the screen.\<close>

theorem release_places_after_hiding_witness:
  "9 \<le> length open_hand
   \<and> lastPinchStateRef (run [Mount (16 / 9), Results pinch_results])
   \<and> \<not> isPinching open_hand
   \<and> (\<exists>s'. onResults \<lparr>multiHandLandmarks = Some [open_hand]\<rparr>
              (run [Mount (16 / 9), Results pinch_results]) = Inr s'
         \<and> placeCalls (history s') = [Vector3 0 0 (- 6)]
         \<and> history s' = [PreviewSet (Vector3 0 0 (- 6)) True, PreviewSet (Vector3 0 0 (- 6)) False,
                          CallPlaceBlock (Vector3 0 0 (- 6)), SceneAdd (Vector3 0 0 (- 6))])"
proof -
  have a: "9 \<le> length open_hand" by (simp add: open_hand_facts)
  have b: "lastPinchStateRef (run [Mount (16 / 9), Results pinch_results])"
    by (simp add: run_mount_pinch)
  have c: "\<not> isPinching open_hand" by (simp add: open_hand_facts)
  have m: "(lm_x (open_hand ! 4) + lm_x (open_hand ! 8)) / 2 = 1 / 2"
    "(lm_y (open_hand ! 4) + lm_y (open_hand ! 8)) / 2 = 1 / 2"
    using open_hand_facts(3,4) by (simp_all add: midpointX_def midpointY_def)
  show ?thesis
    using a b c release_places_after_hiding[OF a b c, of "[]"]
    unfolding m
    by (simp add: run_mount_pinch getSnapped_wide) blast
qed

subsection \<open>The rounding rule of the snap\<close>

text \<open>
  Claim C4 says that the snap rounds a tie away from zero, or to the even neighbour.
  \<^verbatim>\<open>Math.round\<close> does neither: it takes \<open>-1.5\<close> to \<open>-1\<close>, where both rules give \<open>-2\<close>, and
  \<open>0.5\<close> to \<open>1\<close>, where rounding to even gives \<open>0\<close>.  Such a tie is met by the projection
  itself: with a window of 16 by 9 there is a screen point whose world point is
  \<open>(-1.5, 0, -3 sqrt(15)/2)\<close>, and it is snapped to \<open>(-1, 0, -6)\<close>.
\<close>

theorem snap_rule_counterexample:
  "snap (Vector3 (- 3 / 2) (1 / 2) (- 6)) = Vector3 (- 1) 1 (- 6)
   \<and> Math_round (- 3 / 2) = - 1
   \<and> round_half_away_from_zero (- 3 / 2) = - 2
   \<and> round_half_to_even (- 3 / 2) = - 2
   \<and> Math_round (1 / 2) = 1
   \<and> round_half_to_even (1 / 2) = 0
   \<and> targetPos (PerspectiveCamera 70 (16 / 9) (1 / 100) 100)
        (1 / 2 - 9 / (32 * tan (DEG2RAD * (1 / 2) * 70) * sqrt 15)) (1 / 2)
       = Vector3 (- (3 / 2)) 0 (- (3 * sqrt 15 / 2))
   \<and> getSnappedWorldPosition (Some (PerspectiveCamera 70 (16 / 9) (1 / 100) 100))
        (1 / 2 - 9 / (32 * tan (DEG2RAD * (1 / 2) * 70) * sqrt 15)) (1 / 2)
       = Vector3 (- 1) 0 (- 6)"
proof -
  have "snap (Vector3 (- 3 / 2) (1 / 2) (- 6)) = Vector3 (- 1) 1 (- 6)
   \<and> Math_round (- 3 / 2) = - 1
   \<and> round_half_away_from_zero (- 3 / 2) = - 2
   \<and> round_half_to_even (- 3 / 2) = - 2
   \<and> Math_round (1 / 2) = 1
   \<and> round_half_to_even (1 / 2) = 0"
    by (simp add: snap_def GRID_SIZE_def Math_round_def round_half_away_from_zero_def
        round_half_to_even_def frac_def)
  then show ?thesis using targetPos_tie getSnapped_tie by blast
qed

text \<open>
  Claim C4, amended.  With the cell size 1, the snap takes each coordinate \<open>v\<close> to
  \<open>\<lfloor>v + 1/2\<rfloor>\<close>: a nearest integer (at most one half away), every lattice point to
  itself, a tie to the neighbour towards plus infinity, and every other number to what
  rounding half away from zero and rounding half to even give as well.  It is a total
  function of the point.
\<close>

theorem snap_rounds_half_up:
  "snap p = Vector3 (of_int \<lfloor>v_x p + 1 / 2\<rfloor>) (of_int \<lfloor>v_y p + 1 / 2\<rfloor>) (of_int \<lfloor>v_z p + 1 / 2\<rfloor>)
   \<and> \<bar>v_x (snap p) - v_x p\<bar> \<le> 1 / 2 \<and> \<bar>v_y (snap p) - v_y p\<bar> \<le> 1 / 2
   \<and> \<bar>v_z (snap p) - v_z p\<bar> \<le> 1 / 2
   \<and> snap (Vector3 (of_int i) (of_int j) (of_int k)) = Vector3 (of_int i) (of_int j) (of_int k)
   \<and> (frac u \<noteq> 1 / 2 \<longrightarrow>
         Math_round u = round_half_away_from_zero u \<and> Math_round u = round_half_to_even u)
   \<and> (frac v = 1 / 2 \<longrightarrow> Math_round v = v + 1 / 2)"
proof -
  have s: "snap p = Vector3 (Math_round (v_x p)) (Math_round (v_y p)) (Math_round (v_z p))"
    by (simp add: snap_def GRID_SIZE_def)
  have l: "snap (Vector3 (of_int i) (of_int j) (of_int k)) = Vector3 (of_int i) (of_int j) (of_int k)"
    by (simp add: snap_def GRID_SIZE_def Math_round_int)
  have f: "snap p = Vector3 (of_int \<lfloor>v_x p + 1 / 2\<rfloor>) (of_int \<lfloor>v_y p + 1 / 2\<rfloor>) (of_int \<lfloor>v_z p + 1 / 2\<rfloor>)"
    by (simp add: s Math_round_def)
  have n: "\<bar>v_x (snap p) - v_x p\<bar> \<le> 1 / 2" "\<bar>v_y (snap p) - v_y p\<bar> \<le> 1 / 2"
    "\<bar>v_z (snap p) - v_z p\<bar> \<le> 1 / 2"
    unfolding s using Math_round_nearest by simp_all
  show ?thesis
    using f n l Math_round_away[of u] Math_round_even[of u] Math_round_tie[of v] by blast
qed

text \<open>A coordinate off the boundary, \<open>0.25\<close>, and one on it, \<open>-1.5\<close>.\<close>

theorem snap_rounds_half_up_witness:
  "frac (1 / 4 :: real) \<noteq> 1 / 2 \<and> frac (- 3 / 2 :: real) = 1 / 2
   \<and> Math_round (1 / 4) = round_half_away_from_zero (1 / 4)
   \<and> Math_round (1 / 4) = round_half_to_even (1 / 4)
   \<and> Math_round (- 3 / 2) = - 1
   \<and> snap (Vector3 (1 / 4) (- 3 / 2) (- 6)) = Vector3 0 (- 1) (- 6)"
proof -
  have a: "frac (1 / 4 :: real) \<noteq> 1 / 2" by (simp add: frac_def)
  have b: "frac (- 3 / 2 :: real) = 1 / 2" by (simp add: frac_def)
  show ?thesis
    using a b snap_rounds_half_up[of "Vector3 (1 / 4) (- 3 / 2) (- 6)" 0 0 0 "1 / 4" "- 3 / 2"]
    by simp
qed

end
